theory Spec2Isabelle
  imports Complex_Main
begin

section \<open>JavaScript numbers\<close>

text \<open>
  The engine computes with JavaScript numbers. They are modelled as the real numbers
  extended by the three non-finite values of IEEE 754: arithmetic is exact (no rounding,
  no overflow) and there is a single zero. \<open>NaN\<close> is kept because the code produces it
  from finite inputs (a missing argument is \<open>undefined\<close>, and arithmetic on \<open>undefined\<close>
  yields \<open>NaN\<close>); the infinities are kept because division by zero produces them.
\<close>

datatype jsnum = Num real | PInf | NInf | NaN

instantiation jsnum :: "{zero, one, plus, uminus, minus, times, inverse, ord}"
begin

definition zero_jsnum :: jsnum where
  "zero_jsnum = Num 0"

definition one_jsnum :: jsnum where
  "one_jsnum = Num 1"

fun plus_jsnum :: "jsnum \<Rightarrow> jsnum \<Rightarrow> jsnum" where
  "plus_jsnum NaN b = NaN"
| "plus_jsnum a NaN = NaN"
| "plus_jsnum PInf NInf = NaN"
| "plus_jsnum NInf PInf = NaN"
| "plus_jsnum PInf b = PInf"
| "plus_jsnum a PInf = PInf"
| "plus_jsnum NInf b = NInf"
| "plus_jsnum a NInf = NInf"
| "plus_jsnum (Num a) (Num b) = Num (a + b)"

fun uminus_jsnum :: "jsnum \<Rightarrow> jsnum" where
  "uminus_jsnum (Num a) = Num (- a)"
| "uminus_jsnum PInf = NInf"
| "uminus_jsnum NInf = PInf"
| "uminus_jsnum NaN = NaN"

definition minus_jsnum :: "jsnum \<Rightarrow> jsnum \<Rightarrow> jsnum" where
  "minus_jsnum a b = a + (- b)"

fun times_jsnum :: "jsnum \<Rightarrow> jsnum \<Rightarrow> jsnum" where
  "times_jsnum NaN b = NaN"
| "times_jsnum a NaN = NaN"
| "times_jsnum (Num a) (Num b) = Num (a * b)"
| "times_jsnum (Num a) PInf = (if a = 0 then NaN else if 0 < a then PInf else NInf)"
| "times_jsnum (Num a) NInf = (if a = 0 then NaN else if 0 < a then NInf else PInf)"
| "times_jsnum PInf (Num b) = (if b = 0 then NaN else if 0 < b then PInf else NInf)"
| "times_jsnum NInf (Num b) = (if b = 0 then NaN else if 0 < b then NInf else PInf)"
| "times_jsnum PInf PInf = PInf"
| "times_jsnum PInf NInf = NInf"
| "times_jsnum NInf PInf = NInf"
| "times_jsnum NInf NInf = PInf"

fun divide_jsnum :: "jsnum \<Rightarrow> jsnum \<Rightarrow> jsnum" where
  "divide_jsnum NaN b = NaN"
| "divide_jsnum a NaN = NaN"
| "divide_jsnum (Num a) (Num b) =
     (if b \<noteq> 0 then Num (a / b)
      else if a = 0 then NaN else if 0 < a then PInf else NInf)"
| "divide_jsnum (Num a) b = Num 0"
| "divide_jsnum PInf (Num b) = (if 0 \<le> b then PInf else NInf)"
| "divide_jsnum NInf (Num b) = (if 0 \<le> b then NInf else PInf)"
| "divide_jsnum a b = NaN"

definition inverse_jsnum :: "jsnum \<Rightarrow> jsnum" where
  "inverse_jsnum a = divide (Num 1) a"

text \<open>The comparisons \<open><\<close> and \<open><=\<close> of JavaScript: false as soon as an operand is \<open>NaN\<close>.\<close>

fun less_jsnum :: "jsnum \<Rightarrow> jsnum \<Rightarrow> bool" where
  "less_jsnum NaN b = False"
| "less_jsnum a NaN = False"
| "less_jsnum (Num a) (Num b) = (a < b)"
| "less_jsnum a NInf = False"
| "less_jsnum PInf b = False"
| "less_jsnum a b = True"

fun less_eq_jsnum :: "jsnum \<Rightarrow> jsnum \<Rightarrow> bool" where
  "less_eq_jsnum NaN b = False"
| "less_eq_jsnum a NaN = False"
| "less_eq_jsnum (Num a) (Num b) = (a \<le> b)"
| "less_eq_jsnum NInf b = True"
| "less_eq_jsnum a PInf = True"
| "less_eq_jsnum a b = False"

instance ..

end

text \<open>Exact addition and multiplication are associative and commutative also with the
  non-finite values, so sums and products over lists are available.\<close>

instance jsnum :: comm_monoid_add
proof
  fix u v w :: jsnum
  show "u + v + w = u + (v + w)"
    by (cases u; cases v; cases w; simp)
  show "u + v = v + u"
    by (cases u; cases v; simp)
  show "0 + u = u"
    unfolding zero_jsnum_def by (cases u; simp)
qed

instance jsnum :: comm_monoid_mult
proof
  fix u v w :: jsnum
  show "u * v * w = u * (v * w)"
    by (cases u; cases v; cases w; simp add: zero_less_mult_iff mult_less_0_iff; fastforce)
  show "u * v = v * u"
    by (cases u; cases v; simp add: mult.commute)
  show "1 * u = u"
    unfolding one_jsnum_def by (cases u; simp)
qed

text \<open>\<open>a === b\<close> on numbers.\<close>

definition strict_eq :: "jsnum \<Rightarrow> jsnum \<Rightarrow> bool" where
  "strict_eq a b = (a \<noteq> NaN \<and> a = b)"

text \<open>\<open>v || dflt\<close> for a property \<open>v\<close> that may be missing: \<open>undefined\<close>, \<open>0\<close> and \<open>NaN\<close>
  are falsy.\<close>

definition js_or :: "jsnum option \<Rightarrow> jsnum \<Rightarrow> jsnum" where
  "js_or v dflt =
     (case v of None \<Rightarrow> dflt
      | Some a \<Rightarrow> if a = Num 0 \<or> a = NaN then dflt else a)"

text \<open>A missing argument used as a number.\<close>

definition to_number :: "jsnum option \<Rightarrow> jsnum" where
  "to_number v = (case v of None \<Rightarrow> NaN | Some a \<Rightarrow> a)"

subsection \<open>The functions of \<open>Math\<close> that the engine calls\<close>

definition Math_PI :: jsnum where
  "Math_PI = Num pi"

fun Math_max :: "jsnum \<Rightarrow> jsnum \<Rightarrow> jsnum" where
  "Math_max NaN b = NaN"
| "Math_max a NaN = NaN"
| "Math_max a b = (if a < b then b else a)"

fun Math_min :: "jsnum \<Rightarrow> jsnum \<Rightarrow> jsnum" where
  "Math_min NaN b = NaN"
| "Math_min a NaN = NaN"
| "Math_min a b = (if b < a then b else a)"

fun Math_abs :: "jsnum \<Rightarrow> jsnum" where
  "Math_abs (Num a) = Num \<bar>a\<bar>"
| "Math_abs NaN = NaN"
| "Math_abs a = PInf"

text \<open>\<open>Math.hypot\<close> returns \<open>Infinity\<close> when an argument is infinite, even if the other
  is \<open>NaN\<close>.\<close>

fun Math_hypot :: "jsnum \<Rightarrow> jsnum \<Rightarrow> jsnum" where
  "Math_hypot (Num a) (Num b) = Num (sqrt (a * a + b * b))"
| "Math_hypot PInf b = PInf"
| "Math_hypot NInf b = PInf"
| "Math_hypot a PInf = PInf"
| "Math_hypot a NInf = PInf"
| "Math_hypot a b = NaN"

fun Math_cos :: "jsnum \<Rightarrow> jsnum" where
  "Math_cos (Num a) = Num (cos a)"
| "Math_cos a = NaN"

fun Math_sin :: "jsnum \<Rightarrow> jsnum" where
  "Math_sin (Num a) = Num (sin a)"
| "Math_sin a = NaN"

fun Math_exp :: "jsnum \<Rightarrow> jsnum" where
  "Math_exp (Num a) = Num (exp a)"
| "Math_exp PInf = PInf"
| "Math_exp NInf = Num 0"
| "Math_exp NaN = NaN"

fun Math_floor :: "jsnum \<Rightarrow> jsnum" where
  "Math_floor (Num a) = Num (of_int \<lfloor>a\<rfloor>)"
| "Math_floor a = a"

text \<open>\<open>Math.round\<close> rounds to the nearest integer, a tie towards \<open>+Infinity\<close>.\<close>

fun Math_round :: "jsnum \<Rightarrow> jsnum" where
  "Math_round (Num a) = Num (of_int \<lfloor>a + 1 / 2\<rfloor>)"
| "Math_round a = a"

definition atan2_real :: "real \<Rightarrow> real \<Rightarrow> real" where
  "atan2_real b a =
     (if 0 < a then arctan (b / a)
      else if a < 0 then (if 0 \<le> b then arctan (b / a) + pi else arctan (b / a) - pi)
      else if 0 < b then pi / 2 else if b < 0 then - (pi / 2) else 0)"

fun Math_atan2 :: "jsnum \<Rightarrow> jsnum \<Rightarrow> jsnum" where
  "Math_atan2 NaN a = NaN"
| "Math_atan2 b NaN = NaN"
| "Math_atan2 (Num b) (Num a) = Num (atan2_real b a)"
| "Math_atan2 (Num b) PInf = Num 0"
| "Math_atan2 (Num b) NInf = (if 0 \<le> b then Num pi else Num (- pi))"
| "Math_atan2 PInf (Num a) = Num (pi / 2)"
| "Math_atan2 NInf (Num a) = Num (- (pi / 2))"
| "Math_atan2 PInf PInf = Num (pi / 4)"
| "Math_atan2 PInf NInf = Num (3 * pi / 4)"
| "Math_atan2 NInf PInf = Num (- (pi / 4))"
| "Math_atan2 NInf NInf = Num (- (3 * pi / 4))"

text \<open>The operand conversion of the bitwise operators (\<open>ToInt32\<close>): truncate, reduce modulo
  \<open>2^32\<close>, read as a signed 32-bit integer; a non-finite operand becomes 0.\<close>

definition to_int32 :: "jsnum \<Rightarrow> int" where
  "to_int32 v =
     (case v of
        Num a \<Rightarrow>
          (let n = (if 0 \<le> a then \<lfloor>a\<rfloor> else \<lceil>a\<rceil>) mod 2 ^ 32
           in if 2 ^ 31 \<le> n then n - 2 ^ 32 else n)
      | _ \<Rightarrow> 0)"

section \<open>Mathematical tools (\<open>localShapeDeformation.js\<close>, sections 1 and 2)\<close>

unbundle bit_operations_syntax

record point =
  x :: jsnum
  y :: jsnum

record cplx =
  re :: jsnum
  im :: jsnum

definition EPSILON :: jsnum where
  "EPSILON = Num (1 / 10 ^ 10)"

definition complex_add :: "cplx \<Rightarrow> cplx \<Rightarrow> cplx" where
  "complex_add z1 z2 = \<lparr>re = re z1 + re z2, im = im z1 + im z2\<rparr>"

definition complex_subtract :: "cplx \<Rightarrow> cplx \<Rightarrow> cplx" where
  "complex_subtract z1 z2 = \<lparr>re = re z1 - re z2, im = im z1 - im z2\<rparr>"

definition complex_multiply :: "cplx \<Rightarrow> cplx \<Rightarrow> cplx" where
  "complex_multiply z1 z2 =
     \<lparr>re = re z1 * re z2 - im z1 * im z2, im = re z1 * im z2 + im z1 * re z2\<rparr>"

definition complex_divide :: "cplx \<Rightarrow> cplx \<Rightarrow> cplx" where
  "complex_divide z1 z2 =
     (let denominator = re z2 * re z2 + im z2 * im z2
      in \<lparr>re = (re z1 * re z2 + im z1 * im z2) / denominator,
          im = (im z1 * re z2 - re z1 * im z2) / denominator\<rparr>)"

definition complex_fromPoint :: "point \<Rightarrow> cplx" where
  "complex_fromPoint p = \<lparr>re = x p, im = y p\<rparr>"

definition complex_toPoint :: "cplx \<Rightarrow> point" where
  "complex_toPoint z = \<lparr>x = re z, y = im z\<rparr>"

definition complex_abs :: "cplx \<Rightarrow> jsnum" where
  "complex_abs z = Math_hypot (re z) (im z)"

definition complex_arg :: "cplx \<Rightarrow> jsnum" where
  "complex_arg z = Math_atan2 (im z) (re z)"

record mobius_params =
  coef_a :: cplx
  coef_b :: cplx
  coef_c :: cplx
  coef_d :: cplx
  regularizationFactor :: "jsnum option"

definition mobiusTransform :: "cplx \<Rightarrow> mobius_params \<Rightarrow> cplx" where
  "mobiusTransform z params =
     (let regularization = (case regularizationFactor params of None \<Rightarrow> EPSILON | Some e \<Rightarrow> e);
          numerator = complex_add (complex_multiply (coef_a params) z) (coef_b params);
          denominator = complex_add (complex_multiply (coef_c params) z) (coef_d params);
          denomAbs = complex_abs denominator
      in if denomAbs < regularization
         then (let direction = complex_arg numerator
               in \<lparr>re = Math_cos direction * Num 1000000, im = Math_sin direction * Num 1000000\<rparr>)
         else complex_divide numerator denominator)"

text \<open>
  The mappings return plain objects; the model keeps their \<open>x\<close> and \<open>y\<close>, the only
  components a caller reads (the forward stereographic projection also returns \<open>z\<close>, the
  forward cylindrical mapping \<open>theta\<close>). A point of the model has no \<open>z\<close>, so the backward
  stereographic projection reads \<open>undefined\<close> for \<open>p.z\<close>.
\<close>

definition stereographicProjection :: "point \<Rightarrow> point \<Rightarrow> jsnum \<Rightarrow> jsnum \<Rightarrow> point" where
  "stereographicProjection p center radius direction =
     (let z = complex_fromPoint \<lparr>x = (x p - x center) / radius, y = (y p - y center) / radius\<rparr>;
          r = complex_abs z
      in if Num 0 < direction
         then (let factor = Num 2 / (Num 1 + r * r)
               in \<lparr>x = factor * re z * radius + x center, y = factor * im z * radius + y center\<rparr>)
         else (let pz = to_number None
               in if Math_abs (pz - radius) < EPSILON then \<lparr>x = x center, y = y center\<rparr>
                  else (let factor = radius / (radius - pz)
                        in \<lparr>x = x p * factor + x center, y = y p * factor + y center\<rparr>)))"

definition cylindricalMapping :: "point \<Rightarrow> point \<Rightarrow> jsnum \<Rightarrow> jsnum \<Rightarrow> point" where
  "cylindricalMapping p center radius direction =
     (let dx = x p - x center; dy = y p - y center
      in if Num 0 < direction
         then (let theta = Math_atan2 dy dx; r = Math_hypot dx dy
               in \<lparr>x = radius * theta, y = r - radius\<rparr>)
         else (let theta = x p / radius; r = y p + radius
               in \<lparr>x = x center + r * Math_cos theta, y = y center + r * Math_sin theta\<rparr>))"

definition conicMapping :: "point \<Rightarrow> point \<Rightarrow> jsnum \<Rightarrow> jsnum \<Rightarrow> jsnum \<Rightarrow> point" where
  "conicMapping p center radius eccentricity direction =
     (let z = complex_fromPoint \<lparr>x = (x p - x center) / radius, y = (y p - y center) / radius\<rparr>
      in if Num 0 < direction
         then complex_toPoint (mobiusTransform z
                \<lparr>coef_a = \<lparr>re = Num 1, im = Num 0\<rparr>, coef_b = \<lparr>re = Num 0, im = Num 0\<rparr>,
                 coef_c = \<lparr>re = eccentricity, im = Num 0\<rparr>, coef_d = \<lparr>re = Num 1, im = Num 0\<rparr>,
                 regularizationFactor = None\<rparr>)
         else complex_toPoint (mobiusTransform z
                \<lparr>coef_a = \<lparr>re = Num 1, im = Num 0\<rparr>, coef_b = \<lparr>re = Num 0, im = Num 0\<rparr>,
                 coef_c = \<lparr>re = - eccentricity, im = Num 0\<rparr>, coef_d = \<lparr>re = Num 1, im = Num 0\<rparr>,
                 regularizationFactor = None\<rparr>))"

section \<open>Blending functions (section 5)\<close>

datatype blend_mode = Sharp | Linear | Smooth

fun blendingFunctions :: "blend_mode \<Rightarrow> jsnum \<Rightarrow> jsnum \<Rightarrow> jsnum" where
  "blendingFunctions Sharp distance radius = (if distance \<le> radius then Num 1 else Num 0)"
| "blendingFunctions Linear distance radius = Math_max (Num 0) (Num 1 - distance / radius)"
| "blendingFunctions Smooth distance radius =
     (let t = Math_min (Num 1) (distance / radius)
      in Num (1 / 2) * (Num 1 + Math_cos (Math_PI * t)))"

section \<open>Domain framework (section 3)\<close>

text \<open>
  A domain object carries the fields the base constructor sets, the fields of its subclass
  (\<open>variant\<close>, which also selects the \<open>transform\<close> method), and the \<open>id\<close> and \<open>created\<close>
  the engine assigns after construction. The blend mode is one of the three keys of
  \<open>blendingFunctions\<close>. The octave count of a noise domain is a finite number (an
  infinite count would make the loop of its noise function run forever); its permutation
  table holds the values drawn from \<open>Math.random\<close>.
\<close>

record options =
  eccentricity :: "jsnum option"

datatype variant =
    Base
  | Spherical
  | Cylindrical
  | Conic
  | Noise jsnum real jsnum "nat list"
  | Harmonic jsnum jsnum jsnum
  | GaussianCurvature jsnum

record domain =
  type :: string
  center :: point
  radius :: jsnum
  amplitude :: jsnum
  blendMode :: blend_mode
  options :: options
  variant :: variant
  domain_id :: "nat option"
  created :: "nat option"

text \<open>
  A configuration object: every property may be missing. A constructor may also receive a
  string where it expects a configuration (reading a property of a string gives
  \<open>undefined\<close>), or nothing at all.
\<close>

record config =
  cfg_type :: "string option"
  cfg_center :: "point option"
  cfg_radius :: "jsnum option"
  cfg_amplitude :: "jsnum option"
  cfg_blendMode :: "blend_mode option"
  cfg_options :: "options option"
  cfg_scale :: "jsnum option"
  cfg_octaves :: "real option"
  cfg_persistence :: "jsnum option"
  cfg_freqX :: "jsnum option"
  cfg_freqY :: "jsnum option"
  cfg_phase :: "jsnum option"
  cfg_spread :: "jsnum option"

definition empty_config :: config where
  "empty_config =
     \<lparr>cfg_type = None, cfg_center = None, cfg_radius = None, cfg_amplitude = None,
      cfg_blendMode = None, cfg_options = None, cfg_scale = None, cfg_octaves = None,
      cfg_persistence = None, cfg_freqX = None, cfg_freqY = None, cfg_phase = None,
      cfg_spread = None\<rparr>"

datatype arg = Undefined | Str string | Obj config

datatype error = InvalidDomainType "string option" | TypeError

text \<open>\<open>config.f\<close> for an argument that is not \<open>undefined\<close>.\<close>

definition property :: "(config \<Rightarrow> 'a option) \<Rightarrow> arg \<Rightarrow> 'a option" where
  "property f a = (case a of Obj c \<Rightarrow> f c | _ \<Rightarrow> None)"

text \<open>\<open>constructor(type, config = {})\<close> of the base class.\<close>

definition Domain_new :: "string \<Rightarrow> arg \<Rightarrow> variant \<Rightarrow> domain" where
  "Domain_new ty a v =
     (let config = (case a of Undefined \<Rightarrow> Obj empty_config | _ \<Rightarrow> a)
      in \<lparr>type = ty,
          center = (case property cfg_center config of None \<Rightarrow> \<lparr>x = Num 0, y = Num 0\<rparr> | Some c \<Rightarrow> c),
          radius = js_or (property cfg_radius config) (Num 100),
          amplitude = js_or (property cfg_amplitude config) (Num 0),
          blendMode = (case property cfg_blendMode config of None \<Rightarrow> Smooth | Some m \<Rightarrow> m),
          options = (case property cfg_options config of None \<Rightarrow> \<lparr>eccentricity = None\<rparr> | Some opts \<Rightarrow> opts),
          variant = v, domain_id = None, created = None\<rparr>)"

definition weightAt :: "domain \<Rightarrow> point \<Rightarrow> jsnum" where
  "weightAt d p =
     (let distance = Math_hypot (x p - x (center d)) (y p - y (center d))
      in blendingFunctions (blendMode d) distance (radius d))"

subsection \<open>The noise domain\<close>

definition fade :: "jsnum \<Rightarrow> jsnum" where
  "fade t = t * t * t * (t * (t * Num 6 - Num 15) + Num 10)"

text \<open>\<open>#lerp(a, b, t)\<close>; the third argument is missing at two of its three call sites.\<close>

definition lerp :: "jsnum \<Rightarrow> jsnum \<Rightarrow> jsnum option \<Rightarrow> jsnum" where
  "lerp a b t = a + to_number t * (b - a)"

text \<open>\<open>#grad(hash, x, y)\<close>; \<open>hash\<close> is an entry of the permutation table, \<open>undefined\<close> when
  the index is outside the table.\<close>

definition grad :: "nat option \<Rightarrow> jsnum \<Rightarrow> jsnum \<Rightarrow> jsnum" where
  "grad hash gx gy =
     (let h = (case hash of None \<Rightarrow> 0 | Some n \<Rightarrow> to_int32 (Num (real n))) AND 15;
          u = (if h < 8 then gx else gy);
          v = (if h < 4 then gy else if h = 12 \<or> h = 14 then gx else Num 0)
      in (if h AND 1 = 0 then u else - u) + (if h AND 2 = 0 then v else - v))"

definition nth_opt :: "'a list \<Rightarrow> nat \<Rightarrow> 'a option" where
  "nth_opt xs i = (if i < length xs then Some (xs ! i) else None)"

definition singleOctaveNoise :: "nat list \<Rightarrow> jsnum \<Rightarrow> jsnum \<Rightarrow> jsnum" where
  "singleOctaveNoise p nx ny =
     (let X = nat (to_int32 (Math_floor nx) AND 255);
          Y = nat (to_int32 (Math_floor ny) AND 255);
          xf = nx - Math_floor nx;
          yf = ny - Math_floor ny;
          u = fade xf;
          v = fade yf;
          A = map_option (\<lambda>e. e + Y) (nth_opt p X);
          B = map_option (\<lambda>e. e + Y) (nth_opt p (X + 1));
          pA = (case A of None \<Rightarrow> None | Some i \<Rightarrow> nth_opt p i);
          pB = (case B of None \<Rightarrow> None | Some i \<Rightarrow> nth_opt p i)
      in lerp v (lerp u (grad pA xf yf) (Some (lerp u (grad pB (xf - Num 1) yf) None))) None)"

text \<open>The loop of \<open>#noise\<close>, by the number of iterations left; the state is
  \<open>(total, frequency, amplitude, maxValue)\<close>.\<close>

primrec noise_loop ::
  "nat \<Rightarrow> nat list \<Rightarrow> jsnum \<Rightarrow> jsnum \<Rightarrow> jsnum \<Rightarrow> jsnum \<times> jsnum \<times> jsnum \<times> jsnum
     \<Rightarrow> jsnum \<times> jsnum \<times> jsnum \<times> jsnum" where
  "noise_loop 0 p pers nx ny s = s"
| "noise_loop (Suc n) p pers nx ny s =
     (case s of (tot, frequency, ampl, maxValue) \<Rightarrow>
        noise_loop n p pers nx ny
          (tot + singleOctaveNoise p (nx * frequency) (ny * frequency) * ampl,
           frequency * Num 2, ampl * pers, maxValue + ampl))"

text \<open>\<open>for (let i = 0; i < this.octaves; i++)\<close> runs once for every natural number below
  \<open>octaves\<close>.\<close>

definition noise :: "real \<Rightarrow> jsnum \<Rightarrow> nat list \<Rightarrow> jsnum \<Rightarrow> jsnum \<Rightarrow> jsnum" where
  "noise oct pers p nx ny =
     (case noise_loop (nat \<lceil>oct\<rceil>) p pers nx ny (Num 0, Num 1, Num 1, Num 0) of
        (tot, frequency, ampl, maxValue) \<Rightarrow> tot / maxValue)"

definition NoiseDomain_transform ::
  "domain \<Rightarrow> jsnum \<Rightarrow> real \<Rightarrow> jsnum \<Rightarrow> nat list \<Rightarrow> point \<Rightarrow> point" where
  "NoiseDomain_transform d sc oct pers p pt =
     (let noiseVal = noise oct pers p ((x pt - x (center d)) * sc) ((y pt - y (center d)) * sc)
                       * amplitude d
      in \<lparr>x = x pt + noiseVal, y = y pt + noiseVal\<rparr>)"

subsection \<open>The harmonic and the Gaussian-curvature domain\<close>

definition HarmonicDomain_transform :: "domain \<Rightarrow> jsnum \<Rightarrow> jsnum \<Rightarrow> jsnum \<Rightarrow> point \<Rightarrow> point" where
  "HarmonicDomain_transform d fx fy ph pt =
     (let dx = x pt - x (center d); dy = y pt - y (center d)
      in \<lparr>x = x pt + Math_sin (dx * fx + ph) * amplitude d,
          y = y pt + Math_cos (dy * fy + ph) * amplitude d\<rparr>)"

definition bumps :: "(jsnum \<times> jsnum \<times> jsnum) list" where
  "bumps = [(Num (1 / 2), Num (1 / 2), Num 1), (Num (- (1 / 2)), Num (- (1 / 2)), Num 1),
            (Num (1 / 2), Num (- (1 / 2)), Num (- 1)), (Num (- (1 / 2)), Num (1 / 2), Num (- 1))]"

definition GaussianCurvatureDomain_transform :: "domain \<Rightarrow> jsnum \<Rightarrow> point \<Rightarrow> point" where
  "GaussianCurvatureDomain_transform d spr pt =
     (let u = (x pt - x (center d)) / radius d;
          v = (y pt - y (center d)) / radius d;
          deformation =
            foldl (\<lambda>acc bump. case bump of (bx, by, sign) \<Rightarrow>
                     (let dx = u - bx; dy = v - by; distSq = dx * dx + dy * dy
                      in acc + sign * Math_exp (- distSq * spr)))
                  (Num 0) bumps
      in \<lparr>x = x pt + deformation * amplitude d, y = y pt + deformation * amplitude d\<rparr>)"

subsection \<open>Methods of a domain\<close>

text \<open>\<open>transform(point, direction = 1)\<close>, dispatched on the class of the object.\<close>

definition transform :: "domain \<Rightarrow> point \<Rightarrow> jsnum \<Rightarrow> point" where
  "transform d pt direction =
     (case variant d of
        Base \<Rightarrow> pt
      | Spherical \<Rightarrow> stereographicProjection pt (center d) (radius d) direction
      | Cylindrical \<Rightarrow> cylindricalMapping pt (center d) (radius d) direction
      | Conic \<Rightarrow>
          conicMapping pt (center d) (radius d) (js_or (eccentricity (options d)) (Num (1 / 2)))
            direction
      | Noise sc oct pers p \<Rightarrow> NoiseDomain_transform d sc oct pers p pt
      | Harmonic fx fy ph \<Rightarrow> HarmonicDomain_transform d fx fy ph pt
      | GaussianCurvature spr \<Rightarrow> GaussianCurvatureDomain_transform d spr pt)"

text \<open>\<open>_iterativeInverse(target, tolerance = 0.1, maxIterations = 50)\<close>: the loop, from
  counter \<open>i\<close> and the current guess.\<close>

function iterativeInverse_loop ::
  "domain \<Rightarrow> point \<Rightarrow> jsnum \<Rightarrow> nat \<Rightarrow> nat \<Rightarrow> point \<Rightarrow> point" where
  "iterativeInverse_loop d target tolerance maxIterations i guess =
     (if i < maxIterations
      then (let forward = transform d guess (Num 1);
                dx = x target - x forward;
                dy = y target - y forward
            in if Math_hypot dx dy < tolerance then guess
               else iterativeInverse_loop d target tolerance maxIterations (Suc i)
                      \<lparr>x = x guess + dx * Num (1 / 2), y = y guess + dy * Num (1 / 2)\<rparr>)
      else guess)"
  by pat_completeness auto
termination
  by (relation "measure (\<lambda>(d, target, tolerance, maxIterations, i, guess). maxIterations - i)") auto

declare iterativeInverse_loop.simps [simp del]

definition iterativeInverse :: "domain \<Rightarrow> point \<Rightarrow> jsnum \<Rightarrow> nat \<Rightarrow> point" where
  "iterativeInverse d target tolerance maxIterations =
     iterativeInverse_loop d target tolerance maxIterations 0 target"

definition Domain_inverse :: "domain \<Rightarrow> point \<Rightarrow> point" where
  "Domain_inverse d transformedPoint = iterativeInverse d transformedPoint (Num (1 / 10)) 50"

definition curvatureFactor :: "domain \<Rightarrow> point \<Rightarrow> jsnum" where
  "curvatureFactor d p =
     (let distance = Math_hypot (x p - x (center d)) (y p - y (center d))
      in if type d = ''spherical''
         then Num 1 - Math_min (Num (1 / 2)) (Num 1 - (distance / radius d) * (distance / radius d))
         else if type d = ''cylindrical'' then Num (7 / 10)
         else if type d = ''conic''
         then Num 1 - js_or (eccentricity (options d)) (Num (1 / 2)) * Num (4 / 10)
         else Num 1)"

subsection \<open>Constructors of the subclasses\<close>

text \<open>
  \<open>SphericalDomain\<close>, \<open>CylindricalDomain\<close> and \<open>ConicDomain\<close> inherit the constructor of
  the base class. The other three declare \<open>constructor(config)\<close>, call
  \<open>super(name, config)\<close> and then read their own properties from \<open>config\<close>, which throws
  a \<open>TypeError\<close> when \<open>config\<close> is \<open>undefined\<close>.
\<close>

definition NoiseDomain_new :: "arg \<Rightarrow> nat list \<Rightarrow> error + domain" where
  "NoiseDomain_new config perm =
     (case config of
        Undefined \<Rightarrow> Inl TypeError
      | _ \<Rightarrow>
          Inr (Domain_new ''noise'' config
                 (Noise (js_or (property cfg_scale config) (Num (1 / 10)))
                        (case property cfg_octaves config of
                           None \<Rightarrow> 3 | Some n \<Rightarrow> if n = 0 then 3 else n)
                        (js_or (property cfg_persistence config) (Num (1 / 2)))
                        perm)))"

definition HarmonicDomain_new :: "arg \<Rightarrow> error + domain" where
  "HarmonicDomain_new config =
     (case config of
        Undefined \<Rightarrow> Inl TypeError
      | _ \<Rightarrow>
          Inr (Domain_new ''harmonic'' config
                 (Harmonic (js_or (property cfg_freqX config) (Num 3))
                           (js_or (property cfg_freqY config) (Num 2))
                           (js_or (property cfg_phase config) (Num 0)))))"

definition GaussianCurvatureDomain_new :: "arg \<Rightarrow> error + domain" where
  "GaussianCurvatureDomain_new config =
     (case config of
        Undefined \<Rightarrow> Inl TypeError
      | _ \<Rightarrow>
          Inr (Domain_new ''gaussian-curvature'' config
                 (GaussianCurvature (js_or (property cfg_spread config) (Num 4)))))"

section \<open>The factory (section 5)\<close>

text \<open>
  \<open>DomainFactory.create(type, config)\<close> looks \<open>type\<close> up in \<open>constructorMap\<close> and calls
  \<open>new DomainConstructor(type, config)\<close> for every class: the three subclasses with a
  one-parameter constructor receive the type name as their \<open>config\<close>. The last argument of
  the model is the table a noise domain draws from \<open>Math.random\<close>. (The keys that
  \<open>constructorMap\<close> inherits from \<open>Object.prototype\<close> are not modelled.)
\<close>

definition DomainFactory_create :: "string option \<Rightarrow> arg \<Rightarrow> nat list \<Rightarrow> error + domain" where
  "DomainFactory_create ty config perm =
     (case ty of
        None \<Rightarrow> Inl (InvalidDomainType None)
      | Some t \<Rightarrow>
          if t = ''spherical'' then Inr (Domain_new t config Spherical)
          else if t = ''cylindrical'' then Inr (Domain_new t config Cylindrical)
          else if t = ''conic'' then Inr (Domain_new t config Conic)
          else if t = ''noise'' then NoiseDomain_new (Str t) perm
          else if t = ''harmonic'' then HarmonicDomain_new (Str t)
          else if t = ''gaussian-curvature'' then GaussianCurvatureDomain_new (Str t)
          else Inl (InvalidDomainType (Some t)))"

definition createDomain :: "string option \<Rightarrow> arg \<Rightarrow> nat list \<Rightarrow> error + domain" where
  "createDomain ty config perm = DomainFactory_create ty config perm"

section \<open>Deformation manager (section 4)\<close>

record manager =
  domains :: "domain list"
  manager_blendMode :: "blend_mode option"

definition DeformationManager_new :: manager where
  "DeformationManager_new = \<lparr>domains = [], manager_blendMode = Some Smooth\<rparr>"

definition addDomain :: "manager \<Rightarrow> config \<Rightarrow> nat list \<Rightarrow> error + domain \<times> manager" where
  "addDomain m domainConfig perm =
     (case DomainFactory_create (cfg_type domainConfig) (Obj domainConfig) perm of
        Inl e \<Rightarrow> Inl e
      | Inr d \<Rightarrow> Inr (d, m\<lparr>domains := domains m @ [d]\<rparr>))"

definition DeformationManager_transformPoint :: "manager \<Rightarrow> point \<Rightarrow> point" where
  "DeformationManager_transformPoint m p =
     (if length (domains m) = 0 then p
      else (case foldl (\<lambda>acc d. case acc of (totalX, totalY, totalWeight) \<Rightarrow>
                          (let weight = weightAt d p
                           in if Num 0 < weight
                              then (let transformed = transform d p (Num 1)
                                    in (totalX + x transformed * weight,
                                        totalY + y transformed * weight,
                                        totalWeight + weight))
                              else acc))
                       (Num 0, Num 0, Num 0) (domains m) of
              (totalX, totalY, totalWeight) \<Rightarrow>
                if Num 0 < totalWeight
                then \<lparr>x = totalX / totalWeight, y = totalY / totalWeight\<rparr>
                else p))"

text \<open>\<open>reduceRight\<close> folds from the last element of the array to the first.\<close>

definition inverseTransform :: "manager \<Rightarrow> point \<Rightarrow> point" where
  "inverseTransform m p = foldl (\<lambda>result d. Domain_inverse d result) p (rev (domains m))"

definition calculateGridSize :: "manager \<Rightarrow> point \<Rightarrow> jsnum \<Rightarrow> jsnum" where
  "calculateGridSize m p baseSize =
     (let sizeAdjustment =
            foldl (\<lambda>acc d.
                     (let weight = weightAt d p
                      in if Num 0 < weight
                         then acc * (curvatureFactor d p * (Num 1 - weight)
                                     + (Num 1 - weight * Num (1 / 2)) * weight)
                         else acc))
                  (Num 1) (domains m)
      in Math_max (baseSize * Num (2 / 10)) (baseSize * sizeAdjustment))"

section \<open>Legacy API (section 6)\<close>

text \<open>
  The legacy functions build a fresh manager and add a domain for every element of
  \<open>domains\<close>; the first invalid one throws. \<open>rnd i\<close> is the permutation table drawn for the
  \<open>i\<close>-th element.
\<close>

primrec addDomains :: "(nat \<Rightarrow> nat list) \<Rightarrow> nat \<Rightarrow> config list \<Rightarrow> manager \<Rightarrow> error + manager" where
  "addDomains rnd i [] m = Inr m"
| "addDomains rnd i (c # cs) m =
     (case addDomain m c (rnd i) of
        Inl e \<Rightarrow> Inl e
      | Inr r \<Rightarrow> addDomains rnd (Suc i) cs (snd r))"

definition transformPointWithDomains ::
  "point \<Rightarrow> config list \<Rightarrow> blend_mode option \<Rightarrow> (nat \<Rightarrow> nat list) \<Rightarrow> error + point" where
  "transformPointWithDomains p configs mode rnd =
     (case addDomains rnd 0 configs
             (DeformationManager_new
                \<lparr>manager_blendMode := (case mode of None \<Rightarrow> Some Smooth | Some b \<Rightarrow> Some b)\<rparr>) of
        Inl e \<Rightarrow> Inl e
      | Inr m \<Rightarrow> Inr (DeformationManager_transformPoint m p))"

definition inverseTransformPointWithDomains ::
  "point \<Rightarrow> config list \<Rightarrow> blend_mode option \<Rightarrow> (nat \<Rightarrow> nat list) \<Rightarrow> error + point" where
  "inverseTransformPointWithDomains p configs mode rnd =
     (case addDomains rnd 0 configs (DeformationManager_new\<lparr>manager_blendMode := mode\<rparr>) of
        Inl e \<Rightarrow> Inl e
      | Inr m \<Rightarrow> Inr (inverseTransform m p))"

definition calculateEffectiveGridSize ::
  "point \<Rightarrow> config list \<Rightarrow> jsnum \<Rightarrow> (nat \<Rightarrow> nat list) \<Rightarrow> error + jsnum" where
  "calculateEffectiveGridSize p configs baseSize rnd =
     (case addDomains rnd 0 configs DeformationManager_new of
        Inl e \<Rightarrow> Inl e
      | Inr m \<Rightarrow> Inr (calculateGridSize m p baseSize))"

section \<open>Snapping module (\<open>createSnappingModule.js\<close>)\<close>

datatype snap_mode = GRID | INTERSECTION | NONE

record settings =
  enabled :: bool
  mode :: snap_mode
  tolerance :: jsnum
  visualFeedback :: bool
  snapStrength :: jsnum

definition defaultSettings :: settings where
  "defaultSettings =
     \<lparr>enabled = True, mode = GRID, tolerance = Num 10, visualFeedback = True, snapStrength = Num 1\<rparr>"

definition snapToGridPoint :: "settings \<Rightarrow> point \<Rightarrow> jsnum \<Rightarrow> point" where
  "snapToGridPoint s p gridSize =
     (if \<not> enabled s \<or> mode s = NONE then p
      else \<lparr>x = Math_round (x p / gridSize) * gridSize,
            y = Math_round (y p / gridSize) * gridSize\<rparr>)"

text \<open>
  \<open>snapTransformedPoint\<close> receives three callbacks. They run against the caller's state
  \<open>'s\<close> and may throw, so each takes the state and returns an error or its result with the
  new state.
\<close>

definition snapTransformedPoint ::
  "settings \<Rightarrow> point \<Rightarrow> (point \<Rightarrow> 's \<Rightarrow> 'e + point \<times> 's) \<Rightarrow> (point \<Rightarrow> 's \<Rightarrow> 'e + point \<times> 's)
     \<Rightarrow> (point \<Rightarrow> 's \<Rightarrow> 'e + jsnum \<times> 's) \<Rightarrow> 's \<Rightarrow> 'e + point \<times> 's" where
  "snapTransformedPoint s p transformFn inverseFn effectiveGridSizeFn st =
     (if \<not> enabled s \<or> mode s = NONE then Inr (p, st)
      else (case inverseFn p st of
              Inl e \<Rightarrow> Inl e
            | Inr r1 \<Rightarrow>
                (let originalPoint = fst r1
                 in case effectiveGridSizeFn originalPoint (snd r1) of
                      Inl e \<Rightarrow> Inl e
                    | Inr r2 \<Rightarrow>
                        (let gridSize = fst r2;
                             snappedOriginal = snapToGridPoint s originalPoint gridSize
                         in transformFn snappedOriginal (snd r2)))))"

section \<open>The adaptive grid engine (\<open>adaptiveGrid.js\<close>) and its cache\<close>

text \<open>
  The cache module keeps one map for every cache name; the engine uses three names. The
  key of a point is the string \<open>`${point.x},${point.y}`\<close>, modelled as the pair of
  coordinates; the key of the grid cells is the string built from width, height, base
  grid size and the number of domains, modelled as that tuple.

  The string of a number tells two numbers apart except \<open>-0\<close> and \<open>0\<close>, which both read
  \<open>0\<close>, while \<open>Math.atan2\<close> does tell them apart. The numbers of this model have a single
  zero, so what the code does for points that differ only in the sign of a zero coordinate
  (they share a key, and the cylindrical mapping may send them to different points) is
  outside the model.
\<close>

record blending =
  transformWeights :: "(domain \<times> jsnum) list"
  flatWeight :: jsnum

record grid_cell =
  original :: "point list"
  transformed :: "point list"

record caches =
  transformationCache :: "jsnum \<times> jsnum \<rightharpoonup> point"
  blendingCache :: "jsnum \<times> jsnum \<rightharpoonup> blending"
  gridCellCache :: "jsnum \<times> jsnum \<times> jsnum \<times> nat \<rightharpoonup> grid_cell list"

record dims =
  width :: jsnum
  height :: jsnum

text \<open>The parameters the modelled functions read: \<open>grid.size\<close>, \<open>grid.snapToGrid\<close>,
  \<open>transformations.blendMode\<close> and \<open>transformations.maxActiveDomains\<close>. The engine checks
  none of them: \<open>maxActiveDomains\<close> is whatever number the caller gave, a fraction, a
  negative number or \<open>NaN\<close> included.\<close>

record params =
  grid_size :: jsnum
  grid_snapToGrid :: bool
  transformations_blendMode :: "blend_mode option"
  maxActiveDomains :: jsnum

definition defaultParams :: params where
  "defaultParams =
     \<lparr>grid_size = Num 20, grid_snapToGrid = True, transformations_blendMode = Some Smooth,
      maxActiveDomains = Num 5\<rparr>"

record engine =
  viewportDimensions :: dims
  zoomLevel :: jsnum
  panOffset :: point
  transformationDomains :: "domain list"
  mergedParams :: params
  cache :: caches
  snappingSettings :: settings

definition createAdaptiveGridModule :: "dims \<Rightarrow> params \<Rightarrow> engine" where
  "createAdaptiveGridModule canvas parameters =
     \<lparr>viewportDimensions = canvas, zoomLevel = Num 1, panOffset = \<lparr>x = Num 0, y = Num 0\<rparr>,
      transformationDomains = [], mergedParams = parameters,
      cache = \<lparr>transformationCache = Map.empty, blendingCache = Map.empty,
               gridCellCache = Map.empty\<rparr>,
      snappingSettings = defaultSettings\<rparr>"

subsection \<open>Transformation domain management\<close>

text \<open>
  \<open>createTransformationDomain(center, radius, type, options)\<close>, with the two readings of
  \<open>Date.now()\<close> and the table a noise domain draws. The oldest domain is removed before
  the factory is called, so a throwing factory leaves the registry shortened. The test
  \<open>length >= maxActiveDomains\<close> is the comparison of JavaScript numbers, false when
  \<open>maxActiveDomains\<close> is \<open>NaN\<close>.
\<close>

definition createTransformationDomain ::
  "engine \<Rightarrow> point \<Rightarrow> jsnum option \<Rightarrow> string option \<Rightarrow> options \<Rightarrow> nat \<Rightarrow> nat \<Rightarrow> nat list
     \<Rightarrow> (error + domain) \<times> engine" where
  "createTransformationDomain st c r ty opts now1 now2 perm =
     (let st1 = (if maxActiveDomains (mergedParams st)
                       \<le> Num (real (length (transformationDomains st)))
                 then st\<lparr>transformationDomains := tl (transformationDomains st)\<rparr>
                 else st)
      in case createDomain (case ty of None \<Rightarrow> Some ''spherical'' | Some t \<Rightarrow> Some t)
                (Obj (empty_config\<lparr>cfg_center := Some c, cfg_radius := r, cfg_options := Some opts\<rparr>))
                perm of
           Inl e \<Rightarrow> (Inl e, st1)
         | Inr d0 \<Rightarrow>
             (let d = d0\<lparr>domain_id := Some now1, created := Some now2\<rparr>
              in (Inr d,
                  st1\<lparr>transformationDomains := transformationDomains st1 @ [d],
                      cache := (cache st1)\<lparr>transformationCache := Map.empty,
                                            blendingCache := Map.empty\<rparr>\<rparr>)))"

definition removeTransformationDomain :: "engine \<Rightarrow> nat \<Rightarrow> bool \<times> engine" where
  "removeTransformationDomain st domainId =
     (let initialLength = length (transformationDomains st);
          st1 = st\<lparr>transformationDomains :=
                     filter (\<lambda>d. domain_id d \<noteq> Some domainId) (transformationDomains st)\<rparr>
      in if initialLength \<noteq> length (transformationDomains st1)
         then (True, st1\<lparr>cache := (cache st1)\<lparr>transformationCache := Map.empty,
                                               blendingCache := Map.empty\<rparr>\<rparr>)
         else (False, st1))"

definition clearTransformationDomains :: "engine \<Rightarrow> engine" where
  "clearTransformationDomains st =
     st\<lparr>transformationDomains := [],
        cache := (cache st)\<lparr>transformationCache := Map.empty, blendingCache := Map.empty\<rparr>\<rparr>"

subsection \<open>Grid transformation logic\<close>

definition calculateBlendingWeights :: "engine \<Rightarrow> point \<Rightarrow> blending \<times> engine" where
  "calculateBlendingWeights st p =
     (let cacheKey = (x p, y p)
      in case blendingCache (cache st) cacheKey of
           Some cached \<Rightarrow> (cached, st)
         | None \<Rightarrow>
             (let tw = map (\<lambda>d. (d, weightAt d p)) (transformationDomains st);
                  totalWeight = foldl (\<lambda>sum dw. sum + snd dw) (Num 0) tw;
                  result = \<lparr>transformWeights = tw,
                            flatWeight = Math_max (Num 0) (Num 1 - totalWeight)\<rparr>
              in (result,
                  st\<lparr>cache := (cache st)\<lparr>blendingCache :=
                                            (blendingCache (cache st))(cacheKey \<mapsto> result)\<rparr>\<rparr>)))"

definition transformPoint :: "engine \<Rightarrow> point \<Rightarrow> point \<times> engine" where
  "transformPoint st p =
     (let cacheKey = (x p, y p)
      in case transformationCache (cache st) cacheKey of
           Some cached \<Rightarrow> (cached, st)
         | None \<Rightarrow>
             (case calculateBlendingWeights st p of
                (bw, st1) \<Rightarrow>
                  (let result =
                         (if strict_eq (flatWeight bw) (Num 1) then p
                          else (case foldl (\<lambda>acc dw. case acc of (resultX, resultY) \<Rightarrow>
                                              if Num 0 < snd dw
                                              then (let transformed = transform (fst dw) p (Num 1)
                                                    in (resultX + snd dw * x transformed,
                                                        resultY + snd dw * y transformed))
                                              else acc)
                                           (flatWeight bw * x p, flatWeight bw * y p)
                                           (transformWeights bw) of
                                  (resultX, resultY) \<Rightarrow> \<lparr>x = resultX, y = resultY\<rparr>))
                   in (result,
                       st1\<lparr>cache := (cache st1)\<lparr>transformationCache :=
                                                  (transformationCache (cache st1))(cacheKey \<mapsto> result)\<rparr>\<rparr>))))"

text \<open>The engine hands its domain objects to the legacy functions, which read them as
  configurations.\<close>

definition as_config :: "domain \<Rightarrow> config" where
  "as_config d =
     \<lparr>cfg_type = Some (type d), cfg_center = Some (center d), cfg_radius = Some (radius d),
      cfg_amplitude = Some (amplitude d), cfg_blendMode = Some (blendMode d),
      cfg_options = Some (options d),
      cfg_scale = (case variant d of Noise sc oct pers p \<Rightarrow> Some sc | _ \<Rightarrow> None),
      cfg_octaves = (case variant d of Noise sc oct pers p \<Rightarrow> Some oct | _ \<Rightarrow> None),
      cfg_persistence = (case variant d of Noise sc oct pers p \<Rightarrow> Some pers | _ \<Rightarrow> None),
      cfg_freqX = (case variant d of Harmonic fx fy ph \<Rightarrow> Some fx | _ \<Rightarrow> None),
      cfg_freqY = (case variant d of Harmonic fx fy ph \<Rightarrow> Some fy | _ \<Rightarrow> None),
      cfg_phase = (case variant d of Harmonic fx fy ph \<Rightarrow> Some ph | _ \<Rightarrow> None),
      cfg_spread = (case variant d of GaussianCurvature spr \<Rightarrow> Some spr | _ \<Rightarrow> None)\<rparr>"

definition inverseTransformPoint :: "engine \<Rightarrow> point \<Rightarrow> (nat \<Rightarrow> nat list) \<Rightarrow> error + point" where
  "inverseTransformPoint st transformedPoint rnd =
     inverseTransformPointWithDomains transformedPoint (map as_config (transformationDomains st))
       (transformations_blendMode (mergedParams st)) rnd"

definition engine_calculateEffectiveGridSize ::
  "engine \<Rightarrow> point \<Rightarrow> (nat \<Rightarrow> nat list) \<Rightarrow> error + jsnum" where
  "engine_calculateEffectiveGridSize st p rnd =
     calculateEffectiveGridSize p (map as_config (transformationDomains st))
       (grid_size (mergedParams st)) rnd"

subsection \<open>Grid generation\<close>

text \<open>\<open>corners.map(p => transformPoint(p))\<close>: every call may fill the caches.\<close>

primrec transformCorners :: "engine \<Rightarrow> point list \<Rightarrow> point list \<times> engine" where
  "transformCorners st [] = ([], st)"
| "transformCorners st (c # cs) =
     (case transformPoint st c of
        (t, st1) \<Rightarrow> (case transformCorners st1 cs of (ts, st2) \<Rightarrow> (t # ts, st2)))"

text \<open>
  The two nested loops of \<open>generateGridCells\<close>. They step by the base grid size, so they
  need not terminate (a base grid size of 0, for instance): \<open>None\<close> is a loop that runs
  forever.
\<close>

partial_function (option) cells_loop_y ::
  "engine \<Rightarrow> jsnum \<Rightarrow> jsnum \<Rightarrow> jsnum \<Rightarrow> jsnum \<Rightarrow> grid_cell list
     \<Rightarrow> (grid_cell list \<times> engine) option" where
  "cells_loop_y st baseGridSize endY gx gy gridCells =
     (if gy < endY
      then (let corners = [\<lparr>x = gx, y = gy\<rparr>, \<lparr>x = gx + baseGridSize, y = gy\<rparr>,
                           \<lparr>x = gx + baseGridSize, y = gy + baseGridSize\<rparr>,
                           \<lparr>x = gx, y = gy + baseGridSize\<rparr>];
                r = transformCorners st corners
            in cells_loop_y (snd r) baseGridSize endY gx (gy + baseGridSize)
                 (gridCells @ [\<lparr>original = corners, transformed = fst r\<rparr>]))
      else Some (gridCells, st))"

partial_function (option) cells_loop_x ::
  "engine \<Rightarrow> jsnum \<Rightarrow> jsnum \<Rightarrow> jsnum \<Rightarrow> jsnum \<Rightarrow> jsnum \<Rightarrow> grid_cell list
     \<Rightarrow> (grid_cell list \<times> engine) option" where
  "cells_loop_x st baseGridSize startY endX endY gx gridCells =
     (if gx < endX
      then (case cells_loop_y st baseGridSize endY gx startY gridCells of
              None \<Rightarrow> None
            | Some r \<Rightarrow>
                cells_loop_x (snd r) baseGridSize startY endX endY (gx + baseGridSize) (fst r))
      else Some (gridCells, st))"

definition generateGridCells :: "engine \<Rightarrow> (grid_cell list \<times> engine) option" where
  "generateGridCells st =
     (let w = width (viewportDimensions st);
          h = height (viewportDimensions st);
          baseGridSize = grid_size (mergedParams st);
          cacheKey = (w, h, baseGridSize, length (transformationDomains st))
      in case gridCellCache (cache st) cacheKey of
           Some cached \<Rightarrow> Some (cached, st)
         | None \<Rightarrow>
             (let startX = - baseGridSize; startY = - baseGridSize;
                  endX = w + baseGridSize; endY = h + baseGridSize
              in case cells_loop_x st baseGridSize startY endX endY startX [] of
                   None \<Rightarrow> None
                 | Some r \<Rightarrow>
                     Some (fst r,
                           (snd r)\<lparr>cache := (cache (snd r))\<lparr>gridCellCache :=
                                       (gridCellCache (cache (snd r)))(cacheKey \<mapsto> fst r)\<rparr>\<rparr>)))"

subsection \<open>Coordinate snapping\<close>

text \<open>\<open>snapToGrid(point)\<close>; \<open>rnd1\<close> and \<open>rnd2\<close> are the tables drawn by the two legacy
  managers it builds.\<close>

definition snapToGrid ::
  "engine \<Rightarrow> point \<Rightarrow> (nat \<Rightarrow> nat list) \<Rightarrow> (nat \<Rightarrow> nat list) \<Rightarrow> error + point \<times> engine" where
  "snapToGrid st p rnd1 rnd2 =
     (if \<not> grid_snapToGrid (mergedParams st) then Inr (p, st)
      else snapTransformedPoint (snappingSettings st) p
             (\<lambda>q s. Inr (transformPoint s q))
             (\<lambda>q s. case inverseTransformPoint s q rnd1 of Inl e \<Rightarrow> Inl e | Inr r \<Rightarrow> Inr (r, s))
             (\<lambda>q s. case engine_calculateEffectiveGridSize s q rnd2 of
                       Inl e \<Rightarrow> Inl e | Inr g \<Rightarrow> Inr (g, s))
             st)"

subsection \<open>Viewport handling\<close>

definition setZoomLevel :: "engine \<Rightarrow> jsnum \<Rightarrow> jsnum \<times> engine" where
  "setZoomLevel st newZoomLevel =
     (let constrainedZoom = Math_max (Num (1 / 10)) (Math_min (Num 10) newZoomLevel);
          st1 = (if \<not> strict_eq (zoomLevel st) constrainedZoom
                 then st\<lparr>zoomLevel := constrainedZoom,
                         cache := (cache st)\<lparr>gridCellCache := Map.empty\<rparr>\<rparr>
                 else st)
      in (zoomLevel st1, st1))"

definition setPanOffset :: "engine \<Rightarrow> jsnum \<Rightarrow> jsnum \<Rightarrow> point \<times> engine" where
  "setPanOffset st px py =
     (\<lparr>x = px, y = py\<rparr>,
      st\<lparr>panOffset := \<lparr>x = px, y = py\<rparr>, cache := (cache st)\<lparr>gridCellCache := Map.empty\<rparr>\<rparr>)"

definition updateViewportDimensions :: "engine \<Rightarrow> jsnum \<Rightarrow> jsnum \<Rightarrow> dims \<times> engine" where
  "updateViewportDimensions st w h =
     (\<lparr>width = w, height = h\<rparr>,
      st\<lparr>viewportDimensions := \<lparr>width = w, height = h\<rparr>,
         cache := (cache st)\<lparr>gridCellCache := Map.empty\<rparr>\<rparr>)"

subsection \<open>Configuration access\<close>




section \<open>Notions of the specification\<close>

text \<open>The Euclidean distance between two points of the plane with finite coordinates.\<close>

definition euclidean :: "real \<Rightarrow> real \<Rightarrow> real \<Rightarrow> real \<Rightarrow> real" where
  "euclidean px py cx cy = sqrt ((px - cx) * (px - cx) + (py - cy) * (py - cy))"

text \<open>
  Blending, in the words of the specification. The weights are the values of \<open>weightAt\<close>
  as they are (not renormalised); the flat weight is \<open>max(0, 1 - sum of the weights)\<close>;
  a domain is active at a point when its weight there is positive; the forward transform
  is the point itself when the flat weight is 1 and otherwise
  \<open>flatWeight * p + sum over the active domains of weight * transform(p)\<close>.
\<close>

definition spec_flatWeight :: "domain list \<Rightarrow> point \<Rightarrow> jsnum" where
  "spec_flatWeight ds p = Math_max (Num 0) (Num 1 - sum_list (map (\<lambda>d. weightAt d p) ds))"

definition active :: "point \<Rightarrow> domain \<Rightarrow> bool" where
  "active p d = (Num 0 < weightAt d p)"

definition spec_transformPoint :: "domain list \<Rightarrow> point \<Rightarrow> point" where
  "spec_transformPoint ds p =
     (if spec_flatWeight ds p = Num 1 then p
      else \<lparr>x = spec_flatWeight ds p * x p
                 + sum_list (map (\<lambda>d. weightAt d p * x (transform d p (Num 1)))
                               (filter (active p) ds)),
            y = spec_flatWeight ds p * y p
                 + sum_list (map (\<lambda>d. weightAt d p * y (transform d p (Num 1)))
                               (filter (active p) ds))\<rparr>)"

text \<open>The weight-normalised average of the legacy path: no flat contribution.\<close>

definition spec_normalized_average :: "domain list \<Rightarrow> point \<Rightarrow> point" where
  "spec_normalized_average ds p =
     (if \<not> (\<exists>d \<in> set ds. active p d) then p
      else \<lparr>x = sum_list (map (\<lambda>d. weightAt d p * x (transform d p (Num 1))) (filter (active p) ds))
                 / sum_list (map (\<lambda>d. weightAt d p) (filter (active p) ds)),
            y = sum_list (map (\<lambda>d. weightAt d p * y (transform d p (Num 1))) (filter (active p) ds))
                 / sum_list (map (\<lambda>d. weightAt d p) (filter (active p) ds))\<rparr>)"

text \<open>Inversions composed in reverse registration order: the inverse of the last domain
  of the list is applied to the point first, the inverse of the first domain last.\<close>

primrec inverse_chain :: "domain list \<Rightarrow> point \<Rightarrow> point" where
  "inverse_chain [] p = p"
| "inverse_chain (d # ds) p = Domain_inverse d (inverse_chain ds p)"

text \<open>
  The effective grid size: the base size times the product, over the domains with a
  nonzero weight at the point (a weight that is a number other than 0), of
  \<open>curvatureFactor * (1 - weight) + (1 - weight/2) * weight\<close>, but at least a fifth of the
  base size.
\<close>

definition nonzero_weight :: "point \<Rightarrow> domain \<Rightarrow> bool" where
  "nonzero_weight p d = (weightAt d p \<noteq> Num 0 \<and> weightAt d p \<noteq> NaN)"

definition spec_multiplier :: "domain list \<Rightarrow> point \<Rightarrow> jsnum" where
  "spec_multiplier ds p =
     prod_list (map (\<lambda>d. curvatureFactor d p * (Num 1 - weightAt d p)
                          + (Num 1 - weightAt d p / Num 2) * weightAt d p)
                    (filter (nonzero_weight p) ds))"

definition spec_gridSize :: "domain list \<Rightarrow> point \<Rightarrow> jsnum \<Rightarrow> jsnum" where
  "spec_gridSize ds p baseSize =
     Math_max (baseSize * Num (2 / 10)) (baseSize * spec_multiplier ds p)"

text \<open>A point with finite coordinates.\<close>

definition finite_point :: "point \<Rightarrow> bool" where
  "finite_point q = (\<exists>a b. q = \<lparr>x = Num a, y = Num b\<rparr>)"

text \<open>
  A sequence of calls of \<open>createTransformationDomain\<close>, one for every request; a call
  that throws is caught by the caller, who goes on with the next request. The result is the
  list of the domains the calls returned, in order, and the final state.
\<close>

record request =
  req_center :: point
  req_radius :: "jsnum option"
  req_type :: "string option"
  req_options :: options
  req_now1 :: nat
  req_now2 :: nat
  req_perm :: "nat list"

primrec create_all :: "engine \<Rightarrow> request list \<Rightarrow> domain list \<times> engine" where
  "create_all st [] = ([], st)"
| "create_all st (r # rs) =
     (case createTransformationDomain st (req_center r) (req_radius r) (req_type r)
             (req_options r) (req_now1 r) (req_now2 r) (req_perm r) of
        (res, st1) \<Rightarrow>
          (case create_all st1 rs of
             (ds, st2) \<Rightarrow> ((case res of Inl e \<Rightarrow> [] | Inr d \<Rightarrow> [d]) @ ds, st2)))"







section \<open>Properties of the engine state\<close>

text \<open>
  The caches are consistent with the registry when every value they hold is the one the
  engine computes for its key with empty point caches. The engine starts in such a state
  and the registry operations that return normally lead to one, since they empty both
  point caches; a creation that throws on a full registry does not
  (\<open>throwing_create_keeps_point_caches\<close>).
\<close>

definition uncached :: "engine \<Rightarrow> engine" where
  "uncached st =
     st\<lparr>cache := (cache st)\<lparr>transformationCache := Map.empty, blendingCache := Map.empty\<rparr>\<rparr>"

definition cache_consistent :: "engine \<Rightarrow> bool" where
  "cache_consistent st =
     ((\<forall>k v. transformationCache (cache st) k = Some v \<longrightarrow>
              v = fst (transformPoint (uncached st) \<lparr>x = fst k, y = snd k\<rparr>)) \<and>
      (\<forall>k b. blendingCache (cache st) k = Some b \<longrightarrow>
              b = fst (calculateBlendingWeights (uncached st) \<lparr>x = fst k, y = snd k\<rparr>)))"

text \<open>
  A domain object is factory-made when the factory, given the object's type, the object
  itself as the configuration and the object's permutation table, returns the same object
  (before the engine assigns \<open>id\<close> and \<open>created\<close>). Every domain of the registry is
  factory-made, see \<open>createTransformationDomain_factory_made\<close>.
\<close>

definition permutation_of :: "domain \<Rightarrow> nat list" where
  "permutation_of d = (case variant d of Noise sc oct pers p \<Rightarrow> p | _ \<Rightarrow> [])"

definition factory_made :: "domain \<Rightarrow> bool" where
  "factory_made d =
     (DomainFactory_create (Some (type d)) (Obj (as_config d)) (permutation_of d)
        = Inr (d\<lparr>domain_id := None, created := None\<rparr>))"

text \<open>Two domain objects whose methods return the same values.\<close>

definition same_methods :: "domain \<Rightarrow> domain \<Rightarrow> bool" where
  "same_methods d' d =
     ((\<forall>q dir. transform d' q dir = transform d q dir) \<and>
      (\<forall>q. weightAt d' q = weightAt d q) \<and>
      (\<forall>q. curvatureFactor d' q = curvatureFactor d q))"

section \<open>Example inputs\<close>

definition sharp_domain :: domain where
  "sharp_domain =
     Domain_new ''spherical'' (Obj (empty_config\<lparr>cfg_blendMode := Some Sharp\<rparr>)) Spherical"

definition linear_domain :: domain where
  "linear_domain =
     Domain_new ''spherical'' (Obj (empty_config\<lparr>cfg_blendMode := Some Linear\<rparr>)) Spherical"

text \<open>
  Damped fixed-point iteration, in the words of the specification: the guesses start at
  the target, every next guess adds half the residual \<open>target - transform(guess)\<close>, and
  the result is the first guess, among those within the iteration budget, whose residual
  magnitude is below the tolerance, or else the guess reached when the budget is spent.
\<close>

primrec guess_seq :: "domain \<Rightarrow> point \<Rightarrow> nat \<Rightarrow> point" where
  "guess_seq d target 0 = target"
| "guess_seq d target (Suc k) =
     \<lparr>x = x (guess_seq d target k)
            + (x target - x (transform d (guess_seq d target k) (Num 1))) * Num (1 / 2),
      y = y (guess_seq d target k)
            + (y target - y (transform d (guess_seq d target k) (Num 1))) * Num (1 / 2)\<rparr>"

definition residual_below :: "domain \<Rightarrow> point \<Rightarrow> jsnum \<Rightarrow> point \<Rightarrow> bool" where
  "residual_below d target tol g =
     (Math_hypot (x target - x (transform d g (Num 1))) (y target - y (transform d g (Num 1)))
        < tol)"

definition damped_fixed_point :: "domain \<Rightarrow> point \<Rightarrow> jsnum \<Rightarrow> nat \<Rightarrow> point" where
  "damped_fixed_point d target tol budget =
     guess_seq d target
       (case find (\<lambda>k. residual_below d target tol (guess_seq d target k)) [0..<budget] of
          None \<Rightarrow> budget
        | Some k \<Rightarrow> k)"

text \<open>An engine on an empty canvas with the default parameters, then with a spherical
  domain of radius 100 around the origin, then with a second, cylindrical domain.\<close>

definition zero_table :: "nat list" where
  "zero_table = replicate 512 0"

definition engine0 :: engine where
  "engine0 = createAdaptiveGridModule \<lparr>width = Num 0, height = Num 0\<rparr> defaultParams"

definition engine_sph :: engine where
  "engine_sph =
     snd (createTransformationDomain engine0 \<lparr>x = Num 0, y = Num 0\<rparr> (Some (Num 100))
            (Some ''spherical'') \<lparr>eccentricity = None\<rparr> 1 1 zero_table)"

definition engine_two :: engine where
  "engine_two =
     snd (createTransformationDomain engine_sph \<lparr>x = Num 50, y = Num 0\<rparr> (Some (Num 80))
            (Some ''cylindrical'') \<lparr>eccentricity = None\<rparr> 2 2 zero_table)"

definition dom_sph :: domain where
  "dom_sph =
     (Domain_new ''spherical''
        (Obj (empty_config\<lparr>cfg_center := Some \<lparr>x = Num 0, y = Num 0\<rparr>,
                          cfg_radius := Some (Num 100),
                          cfg_options := Some \<lparr>eccentricity = None\<rparr>\<rparr>))
        Spherical)\<lparr>domain_id := Some 1, created := Some 1\<rparr>"

definition dom_cyl :: domain where
  "dom_cyl =
     (Domain_new ''cylindrical''
        (Obj (empty_config\<lparr>cfg_center := Some \<lparr>x = Num 50, y = Num 0\<rparr>,
                          cfg_radius := Some (Num 80),
                          cfg_options := Some \<lparr>eccentricity = None\<rparr>\<rparr>))
        Cylindrical)\<lparr>domain_id := Some 2, created := Some 2\<rparr>"

definition mgr_sph :: manager where
  "mgr_sph = \<lparr>domains = [dom_sph], manager_blendMode = Some Smooth\<rparr>"

text \<open>A manager of both domains: at \<open>(50, 0)\<close> the spherical one has weight 1/2 and the
  cylindrical one, whose centre the point is, has weight 1.\<close>

definition mgr_two :: manager where
  "mgr_two = \<lparr>domains = [dom_sph, dom_cyl], manager_blendMode = Some Smooth\<rparr>"

text \<open>Engines with a base grid size of 10 and with snapping switched off, and snap
  settings that are disabled.\<close>

definition engine10 :: engine where
  "engine10 =
     createAdaptiveGridModule \<lparr>width = Num 0, height = Num 0\<rparr> (defaultParams\<lparr>grid_size := Num 10\<rparr>)"

definition engine_nosnap :: engine where
  "engine_nosnap =
     createAdaptiveGridModule \<lparr>width = Num 0, height = Num 0\<rparr>
       (defaultParams\<lparr>grid_snapToGrid := False\<rparr>)"

definition settings_off :: settings where
  "settings_off = defaultSettings\<lparr>enabled := False\<rparr>"






text \<open>A configuration that sets every property, and the noise domain the factory builds
  whatever the configuration.\<close>

definition full_config :: config where
  "full_config =
     \<lparr>cfg_type = Some ''noise'', cfg_center = Some \<lparr>x = Num 5, y = Num 5\<rparr>,
      cfg_radius = Some (Num 50), cfg_amplitude = Some (Num 7), cfg_blendMode = Some Linear,
      cfg_options = Some \<lparr>eccentricity = Some (Num (3 / 10))\<rparr>, cfg_scale = Some (Num 2),
      cfg_octaves = Some 4, cfg_persistence = Some (Num (1 / 4)), cfg_freqX = Some (Num 5),
      cfg_freqY = Some (Num 7), cfg_phase = Some (Num 1), cfg_spread = Some (Num 6)\<rparr>"

definition default_noise :: domain where
  "default_noise =
     \<lparr>type = ''noise'', center = \<lparr>x = Num 0, y = Num 0\<rparr>, radius = Num 100, amplitude = Num 0,
      blendMode = Smooth, options = \<lparr>eccentricity = None\<rparr>,
      variant = Noise (Num (1 / 10)) 3 (Num (1 / 2)) zero_table,
      domain_id = None, created = None\<rparr>"

text \<open>
  An engine of capacity 1 on an empty canvas: a spherical domain is created around the
  grid corner \<open>(-20, -20)\<close>, the grid cells are generated, and a cylindrical domain is
  created in the same place, which evicts the first.
\<close>

definition engine_a0 :: engine where
  "engine_a0 =
     createAdaptiveGridModule \<lparr>width = Num 0, height = Num 0\<rparr>
       (defaultParams\<lparr>maxActiveDomains := Num 1\<rparr>)"

definition engine_a1 :: engine where
  "engine_a1 =
     snd (createTransformationDomain engine_a0 \<lparr>x = Num (- 20), y = Num (- 20)\<rparr> (Some (Num 100))
            (Some ''spherical'') \<lparr>eccentricity = None\<rparr> 1 1 zero_table)"

definition cells_a :: "grid_cell list" where
  "cells_a = fst (the (generateGridCells engine_a1))"

definition engine_a2 :: engine where
  "engine_a2 = snd (the (generateGridCells engine_a1))"

definition engine_b :: engine where
  "engine_b =
     snd (createTransformationDomain engine_a2 \<lparr>x = Num (- 20), y = Num (- 20)\<rparr> (Some (Num 100))
            (Some ''cylindrical'') \<lparr>eccentricity = None\<rparr> 2 2 zero_table)"

definition dom_a :: domain where
  "dom_a =
     (Domain_new ''spherical''
        (Obj (empty_config\<lparr>cfg_center := Some \<lparr>x = Num (- 20), y = Num (- 20)\<rparr>,
                          cfg_radius := Some (Num 100),
                          cfg_options := Some \<lparr>eccentricity = None\<rparr>\<rparr>))
        Spherical)\<lparr>domain_id := Some 1, created := Some 1\<rparr>"

definition dom_b :: domain where
  "dom_b =
     (Domain_new ''cylindrical''
        (Obj (empty_config\<lparr>cfg_center := Some \<lparr>x = Num (- 20), y = Num (- 20)\<rparr>,
                          cfg_radius := Some (Num 100),
                          cfg_options := Some \<lparr>eccentricity = None\<rparr>\<rparr>))
        Cylindrical)\<lparr>domain_id := Some 2, created := Some 2\<rparr>"

text \<open>The engine of capacity 1 after transforming the point \<open>(30, -20)\<close>, and after a call of
  \<open>createTransformationDomain\<close> with an unknown type.\<close>

definition engine_p :: engine where
  "engine_p = snd (transformPoint engine_a1 \<lparr>x = Num 30, y = Num (- 20)\<rparr>)"

definition engine_t :: engine where
  "engine_t =
     snd (createTransformationDomain engine_p \<lparr>x = Num 0, y = Num 0\<rparr> (Some (Num 100))
            (Some ''bogus'') \<lparr>eccentricity = None\<rparr> 3 3 zero_table)"

section \<open>Arithmetic of JavaScript numbers\<close>

lemma plus_NaN_right [simp]: "a + NaN = NaN" for a :: jsnum
  by (cases a) simp_all

lemma times_NaN_right [simp]: "a * NaN = NaN" for a :: jsnum
  by (cases a) simp_all

lemma divide_NaN_right [simp]: "a / NaN = NaN" for a :: jsnum
  by (cases a) simp_all

lemma minus_NaN_right [simp]: "a - NaN = NaN" for a :: jsnum
  by (simp add: minus_jsnum_def)

lemma minus_NaN_left [simp]: "NaN - a = NaN" for a :: jsnum
  by (simp add: minus_jsnum_def)

lemma less_NaN_right [simp]: "\<not> a < NaN" for a :: jsnum
  by (cases a) simp_all

lemma less_eq_NaN_right [simp]: "\<not> a \<le> NaN" for a :: jsnum
  by (cases a) simp_all

lemma Math_max_NaN_right [simp]: "Math_max a NaN = NaN"
  by (cases a) simp_all

lemma Math_min_NaN_right [simp]: "Math_min a NaN = NaN"
  by (cases a) simp_all

lemma minus_Num [simp]: "Num a - Num b = Num (a - b)"
  by (simp add: minus_jsnum_def)

lemma zero_plus_js [simp]: "Num 0 + a = a"
  using add_0_left [of a] by (simp add: zero_jsnum_def)

lemma plus_zero_js [simp]: "a + Num 0 = a"
  using add_0_right [of a] by (simp add: zero_jsnum_def)

lemma one_times_js [simp]: "Num 1 * a = a"
  using mult_1_left [of a] by (simp add: one_jsnum_def)

lemma times_one_js [simp]: "a * Num 1 = a"
  using mult_1_right [of a] by (simp add: one_jsnum_def)

lemma half_js: "a * Num (1 / 2) = a / Num 2"
  by (cases a) simp_all

lemma Math_max_not_below: "\<not> Math_max a b < a"
  by (cases a; cases b) auto

lemma strict_eq_Num [simp]: "strict_eq a (Num b) = (a = Num b)"
  by (auto simp: strict_eq_def)

lemma js_or_idem: "dflt \<noteq> NaN \<Longrightarrow> js_or (Some (js_or v dflt)) dflt = js_or v dflt"
  by (auto simp: js_or_def split: option.splits)

lemma point_eta [simp]: "\<lparr>x = x p, y = y p\<rparr> = p" for p :: point
  by (cases p) simp

section \<open>Blending weights\<close>

lemma euclidean_nonneg: "0 \<le> euclidean px py cx cy"
  by (simp add: euclidean_def)

lemma euclidean_self [simp]: "euclidean cx cy cx cy = 0"
  by (simp add: euclidean_def)

lemma weightAt_finite:
  assumes "radius d = Num r" "0 < r" "center d = \<lparr>x = Num cx, y = Num cy\<rparr>"
  shows "weightAt d \<lparr>x = Num px, y = Num py\<rparr> =
           Num (case blendMode d of
                  Sharp \<Rightarrow> if euclidean px py cx cy \<le> r then 1 else 0
                | Linear \<Rightarrow> max 0 (1 - euclidean px py cx cy / r)
                | Smooth \<Rightarrow> 1 / 2 * (1 + cos (pi * min 1 (euclidean px py cx cy / r))))"
  using assms
  by (cases "blendMode d") (auto simp: weightAt_def Let_def Math_PI_def max_def min_def euclidean_def)

lemma smooth_profile_antimono:
  assumes "0 < r" "0 \<le> a" "a \<le> b"
  shows "cos (pi * min 1 (b / r)) \<le> cos (pi * min 1 (a / r))"
proof (rule cos_monotone_0_pi_le)
  show "0 \<le> pi * min 1 (a / r)" using assms by simp
  show "pi * min 1 (a / r) \<le> pi * min 1 (b / r)"
    using assms by (simp add: min_def divide_right_mono)
  show "pi * min 1 (b / r) \<le> pi"
    by (simp add: min_def mult_left_le)
qed

lemma linear_profile_antimono:
  assumes "0 < r" "a \<le> b"
  shows "max 0 (1 - b / r) \<le> max (0::real) (1 - a / r)"
proof -
  have "a / r \<le> b / r" using assms by (simp add: divide_right_mono)
  then show ?thesis by (simp add: max_def)
qed

text \<open>
  Claim C2, as amended. For every domain with a finite centre and a finite radius
  \<open>r > 0\<close>, and for points with finite coordinates: \<open>weightAt(center)\<close> is 1 in all three
  blend modes; the profiles are sharp = 1 up to and including the radius and 0 beyond,
  linear = \<open>max(0, 1 - distance/radius)\<close>, smooth =
  \<open>0.5 * (1 + cos(pi * min(1, distance/radius)))\<close>; at a distance exactly equal to the radius
  the weight is 1 for sharp and 0 for linear and smooth; and linear and smooth are
  non-increasing in the distance.
\<close>

theorem C2_weightAt_profiles:
  assumes "radius d = Num r" and "0 < r" and "center d = \<lparr>x = Num cx, y = Num cy\<rparr>"
  shows "weightAt d (center d) = Num 1 \<and>
         (\<forall>px py. weightAt d \<lparr>x = Num px, y = Num py\<rparr> =
             Num (case blendMode d of
                    Sharp \<Rightarrow> if euclidean px py cx cy \<le> r then 1 else 0
                  | Linear \<Rightarrow> max 0 (1 - euclidean px py cx cy / r)
                  | Smooth \<Rightarrow> 1 / 2 * (1 + cos (pi * min 1 (euclidean px py cx cy / r))))) \<and>
         (\<forall>px py. euclidean px py cx cy = r \<longrightarrow>
             weightAt d \<lparr>x = Num px, y = Num py\<rparr> =
               (if blendMode d = Sharp then Num 1 else Num 0)) \<and>
         (\<forall>px py qx qy. blendMode d \<noteq> Sharp \<longrightarrow>
             euclidean px py cx cy \<le> euclidean qx qy cx cy \<longrightarrow>
             weightAt d \<lparr>x = Num qx, y = Num qy\<rparr> \<le> weightAt d \<lparr>x = Num px, y = Num py\<rparr>)"
proof (intro conjI allI impI)
  note w = weightAt_finite [OF assms]
  show "weightAt d (center d) = Num 1"
    using w [of cx cy] assms by (cases "blendMode d") simp_all
  show "weightAt d \<lparr>x = Num px, y = Num py\<rparr> =
          Num (case blendMode d of
                 Sharp \<Rightarrow> if euclidean px py cx cy \<le> r then 1 else 0
               | Linear \<Rightarrow> max 0 (1 - euclidean px py cx cy / r)
               | Smooth \<Rightarrow> 1 / 2 * (1 + cos (pi * min 1 (euclidean px py cx cy / r))))" for px py
    by (rule w)
  show "weightAt d \<lparr>x = Num px, y = Num py\<rparr> = (if blendMode d = Sharp then Num 1 else Num 0)"
    if "euclidean px py cx cy = r" for px py
    using w [of px py] that assms by (cases "blendMode d") simp_all
  show "weightAt d \<lparr>x = Num qx, y = Num qy\<rparr> \<le> weightAt d \<lparr>x = Num px, y = Num py\<rparr>"
    if "blendMode d \<noteq> Sharp" and "euclidean px py cx cy \<le> euclidean qx qy cx cy"
    for px py qx qy
  proof (cases "blendMode d")
    case Sharp
    with that show ?thesis by simp
  next
    case Linear
    then show ?thesis
      using w [of px py] w [of qx qy] linear_profile_antimono [OF assms(2) that(2)] by simp
  next
    case Smooth
    then show ?thesis
      using w [of px py] w [of qx qy]
        smooth_profile_antimono [OF assms(2) euclidean_nonneg that(2)] by simp
  qed
qed

text \<open>The amended claim at a linear domain of radius 100 around the origin: the centre, a
  point on the boundary, and the two compared.\<close>

theorem C2_witness:
  "weightAt linear_domain (center linear_domain) = Num 1 \<and>
   weightAt linear_domain \<lparr>x = Num 100, y = Num 0\<rparr> = Num 0 \<and>
   weightAt linear_domain \<lparr>x = Num 100, y = Num 0\<rparr>
     \<le> weightAt linear_domain \<lparr>x = Num 0, y = Num 0\<rparr>"
proof -
  have r: "radius linear_domain = Num 100"
    and c: "center linear_domain = \<lparr>x = Num 0, y = Num 0\<rparr>"
    and b: "blendMode linear_domain = Linear"
    by (simp_all add: linear_domain_def Domain_new_def empty_config_def property_def js_or_def)
  have e: "euclidean 100 0 0 0 = 100" "euclidean 0 0 0 0 \<le> euclidean 100 0 0 0"
    by (simp_all add: euclidean_def)
  show ?thesis
    using C2_weightAt_profiles [OF r _ c] b e by auto
qed

text \<open>Claim C2 as stated fails: a sharp domain of radius 100 around the origin has weight 1,
  not 0, at the point \<open>(100, 0)\<close>, whose distance from the centre is exactly the radius.\<close>

theorem C2_counterexample:
  "Math_hypot (Num 100 - x (center sharp_domain)) (Num 0 - y (center sharp_domain))
     = radius sharp_domain
   \<and> weightAt sharp_domain \<lparr>x = Num 100, y = Num 0\<rparr> = Num 1
   \<and> weightAt sharp_domain \<lparr>x = Num 100, y = Num 0\<rparr> \<noteq> Num 0"
  by (simp add: sharp_domain_def Domain_new_def empty_config_def property_def js_or_def
      weightAt_def)

text \<open>A weight is never negative, so a domain is active exactly when its weight is
  nonzero.\<close>

lemma weightAt_cases: "(\<exists>r. 0 \<le> r \<and> weightAt d p = Num r) \<or> weightAt d p = PInf \<or> weightAt d p = NaN"
proof (cases "blendMode d")
  case Sharp
  then show ?thesis by (simp add: weightAt_def Let_def)
next
  case Linear
  then show ?thesis
    by (cases "Num 1 - Math_hypot (x p - x (center d)) (y p - y (center d)) / radius d")
      (simp_all add: weightAt_def Let_def)
next
  case Smooth
  have c: "(\<exists>r. -1 \<le> r \<and> Math_cos a = Num r) \<or> Math_cos a = NaN" for a
    by (cases a) simp_all
  from c [of "Math_PI * Math_min (Num 1) (Math_hypot (x p - x (center d)) (y p - y (center d)) / radius d)"]
  show ?thesis
  proof
    assume "\<exists>r. - 1 \<le> r \<and> Math_cos (Math_PI * Math_min (Num 1)
              (Math_hypot (x p - x (center d)) (y p - y (center d)) / radius d)) = Num r"
    then obtain r where "- 1 \<le> r" and "Math_cos (Math_PI * Math_min (Num 1)
              (Math_hypot (x p - x (center d)) (y p - y (center d)) / radius d)) = Num r"
      by blast
    then have "0 \<le> 1 / 2 * (1 + r) \<and> weightAt d p = Num (1 / 2 * (1 + r))"
      using Smooth by (simp add: weightAt_def Let_def)
    then show ?thesis by blast
  next
    assume "Math_cos (Math_PI * Math_min (Num 1)
              (Math_hypot (x p - x (center d)) (y p - y (center d)) / radius d)) = NaN"
    then show ?thesis using Smooth by (simp add: weightAt_def Let_def)
  qed
qed

lemma active_iff_nonzero: "active p d = nonzero_weight p d"
  using weightAt_cases [of d p] by (auto simp: active_def nonzero_weight_def)

section \<open>The default inverse\<close>

lemma iterativeInverse_loop_spec:
  "i \<le> m \<Longrightarrow>
   iterativeInverse_loop d target tol m i (guess_seq d target i) =
     guess_seq d target
       (case find (\<lambda>k. residual_below d target tol (guess_seq d target k)) [i..<m] of
          None \<Rightarrow> m | Some k \<Rightarrow> k)"
proof (induction "m - i" arbitrary: i)
  case 0
  then show ?case by (subst iterativeInverse_loop.simps) simp
next
  case (Suc n)
  then have lt: "i < m" and n: "n = m - Suc i" and le: "Suc i \<le> m" by simp_all
  have upt: "[i..<m] = i # [Suc i..<m]" using lt by (simp add: upt_conv_Cons)
  show ?case
  proof (cases "residual_below d target tol (guess_seq d target i)")
    case True
    then show ?thesis
      using lt upt by (subst iterativeInverse_loop.simps) (simp add: residual_below_def Let_def)
  next
    case False
    then show ?thesis
      using lt upt Suc.hyps(1) [OF n le]
      by (subst iterativeInverse_loop.simps) (simp add: residual_below_def Let_def)
  qed
qed

lemma iterativeInverse_spec:
  "iterativeInverse d target tol n = damped_fixed_point d target tol n"
  using iterativeInverse_loop_spec [of 0 n d target tol]
  by (simp add: iterativeInverse_def damped_fixed_point_def)

text \<open>
  Claim C7. For every domain and every target point, the default inverse is the damped
  fixed-point iteration with tolerance 0.1 and a budget of 50 iterations: it starts from
  the target, stops at the first guess whose residual magnitude is below the tolerance,
  otherwise adds half the residual, and after 50 steps returns the guess it has reached.
  It always returns a point: the model of \<open>inverse\<close> has no error result. The same holds
  for \<open>_iterativeInverse\<close> with any tolerance and budget.
\<close>

theorem C7_default_inverse:
  "Domain_inverse d target = damped_fixed_point d target (Num (1 / 10)) 50 \<and>
   (\<forall>tol n. iterativeInverse d target tol n = damped_fixed_point d target tol n)"
  by (simp add: Domain_inverse_def iterativeInverse_spec)

lemma guess_seq_cong:
  assumes "\<And>q. transform d q (Num 1) = transform d' q (Num 1)"
  shows "guess_seq d t k = guess_seq d' t k"
  by (induction k) (simp_all add: assms)

lemma Domain_inverse_cong:
  assumes "\<And>q. transform d q (Num 1) = transform d' q (Num 1)"
  shows "Domain_inverse d t = Domain_inverse d' t"
  by (simp add: Domain_inverse_def iterativeInverse_spec damped_fixed_point_def
      residual_below_def guess_seq_cong [OF assms] assms)

section \<open>The noise domain returns \<open>NaN\<close>\<close>

text \<open>Two of the three calls of \<open>#lerp\<close> in \<open>#singleOctaveNoise\<close> pass two arguments, so
  the third is \<open>undefined\<close> and the interpolation is \<open>NaN\<close>, whatever the permutation table
  holds; with no octave at all the noise is \<open>0 / 0\<close>.\<close>

lemma lerp_missing [simp]: "lerp a b None = NaN"
  by (simp add: lerp_def to_number_def)

lemma singleOctaveNoise_NaN [simp]: "singleOctaveNoise p nx ny = NaN"
  by (simp add: singleOctaveNoise_def Let_def)

lemma noise_loop_NaN:
  "fst (noise_loop n p pers nx ny (NaN, f, a, mv)) = NaN"
  by (induction n arbitrary: f a mv) simp_all

lemma noise_NaN [simp]: "noise oct pers p nx ny = NaN"
proof (cases "nat \<lceil>oct\<rceil>")
  case 0
  then show ?thesis by (simp add: noise_def)
next
  case (Suc n)
  then show ?thesis
    using noise_loop_NaN [of n p pers nx ny "Num 1 * Num 2" "Num 1 * pers" "Num 0 + Num 1"]
    by (auto simp: noise_def split: prod.splits)
qed

lemma NoiseDomain_transform_NaN [simp]:
  "NoiseDomain_transform d sc oct pers p pt = \<lparr>x = NaN, y = NaN\<rparr>"
  by (simp add: NoiseDomain_transform_def)

section \<open>Domains made by the factory\<close>

lemma same_methods_noise:
  "same_methods (Domain_new t a (Noise sc oct pers p)) (Domain_new t a (Noise sc oct pers p'))"
  by (simp add: same_methods_def transform_def weightAt_def curvatureFactor_def Domain_new_def Let_def)

lemma same_methods_ids: "same_methods (d\<lparr>domain_id := i, created := c\<rparr>) d"
  by (cases "variant d")
    (simp_all add: same_methods_def transform_def weightAt_def curvatureFactor_def Let_def
      HarmonicDomain_transform_def GaussianCurvatureDomain_transform_def)

lemma same_methods_trans: "same_methods a b \<Longrightarrow> same_methods b c \<Longrightarrow> same_methods a c"
  by (simp add: same_methods_def)

lemma same_methods_sym: "same_methods a b \<Longrightarrow> same_methods b a"
  by (simp add: same_methods_def)

lemma recreate_factory_made:
  assumes "factory_made d"
  shows "\<exists>d'. DomainFactory_create (Some (type d)) (Obj (as_config d)) perm = Inr d' \<and>
              same_methods d' d"
proof -
  let ?d0 = "d\<lparr>domain_id := None, created := None\<rparr>"
  have fm: "DomainFactory_create (Some (type d)) (Obj (as_config d)) (permutation_of d) = Inr ?d0"
    using assms by (simp add: factory_made_def)
  have d0: "same_methods ?d0 d" by (rule same_methods_ids)
  show ?thesis
  proof (cases "type d = ''noise''")
    case False
    then have "DomainFactory_create (Some (type d)) (Obj (as_config d)) perm
               = DomainFactory_create (Some (type d)) (Obj (as_config d)) (permutation_of d)"
      by (simp add: DomainFactory_create_def)
    with fm d0 show ?thesis by simp
  next
    case True
    then obtain sc oct pers where
      a: "DomainFactory_create (Some (type d)) (Obj (as_config d)) perm
            = Inr (Domain_new ''noise'' (Str ''noise'') (Noise sc oct pers perm))"
      and b: "DomainFactory_create (Some (type d)) (Obj (as_config d)) (permutation_of d)
            = Inr (Domain_new ''noise'' (Str ''noise'') (Noise sc oct pers (permutation_of d)))"
      by (simp add: DomainFactory_create_def NoiseDomain_new_def)
    from b fm have "?d0 = Domain_new ''noise'' (Str ''noise'') (Noise sc oct pers (permutation_of d))"
      by simp
    with d0 have "same_methods (Domain_new ''noise'' (Str ''noise'') (Noise sc oct pers (permutation_of d))) d"
      by simp
    with same_methods_noise [of "''noise''" "Str ''noise''" sc oct pers perm "permutation_of d"]
    have "same_methods (Domain_new ''noise'' (Str ''noise'') (Noise sc oct pers perm)) d"
      by (rule same_methods_trans)
    with a show ?thesis by simp
  qed
qed

lemma addDomains_factory_made:
  assumes "\<forall>d \<in> set ds. factory_made d"
  shows "\<exists>ds'. addDomains rnd i (map as_config ds) m = Inr (m\<lparr>domains := domains m @ ds'\<rparr>) \<and>
               list_all2 same_methods ds' ds"
  using assms
proof (induction ds arbitrary: i m)
  case Nil
  then show ?case by simp
next
  case (Cons d ds)
  from Cons.prems have "factory_made d" by simp
  from recreate_factory_made [OF this, of "rnd i"] obtain d' where
    c: "DomainFactory_create (Some (type d)) (Obj (as_config d)) (rnd i) = Inr d'"
    and s: "same_methods d' d" by blast
  from Cons.prems have "\<forall>e \<in> set ds. factory_made e" by simp
  from Cons.IH [OF this, of "Suc i" "m\<lparr>domains := domains m @ [d']\<rparr>"] obtain ds' where
    r: "addDomains rnd (Suc i) (map as_config ds) (m\<lparr>domains := domains m @ [d']\<rparr>)
          = Inr (m\<lparr>domains := domains m @ [d'], domains := domains (m\<lparr>domains := domains m @ [d']\<rparr>) @ ds'\<rparr>)"
    and l: "list_all2 same_methods ds' ds" by blast
  have "addDomains rnd i (map as_config (d # ds)) m = Inr (m\<lparr>domains := domains m @ (d' # ds')\<rparr>)"
    using c r by (simp add: addDomain_def as_config_def)
  with s l show ?case by (intro exI [of _ "d' # ds'"]) simp
qed

lemma Domain_new_as_config:
  "Domain_new t (Obj (as_config ((Domain_new t a v)\<lparr>domain_id := i, created := c\<rparr>))) v
     = Domain_new t a v"
  by (simp add: Domain_new_def as_config_def property_def js_or_idem Let_def)

lemma Domain_new_fields [simp]:
  "type ((Domain_new t a v)\<lparr>domain_id := i, created := c\<rparr>) = t"
  "variant ((Domain_new t a v)\<lparr>domain_id := i, created := c\<rparr>) = v"
  "(Domain_new t a v)\<lparr>domain_id := None, created := None\<rparr> = Domain_new t a v"
  by (simp_all add: Domain_new_def Let_def)

lemma DomainFactory_create_factory_made:
  assumes "DomainFactory_create ty a perm = Inr d0"
  shows "factory_made (d0\<lparr>domain_id := i, created := c\<rparr>)"
proof -
  from assms obtain t where t: "ty = Some t"
    by (cases ty) (simp_all add: DomainFactory_create_def)
  consider "t = ''spherical''" | "t = ''cylindrical''" | "t = ''conic''" | "t = ''noise''"
    | "t = ''harmonic''" | "t = ''gaussian-curvature''"
    using assms t by (auto simp: DomainFactory_create_def split: if_splits)
  then show ?thesis
  proof cases
    case 1
    with assms t have "d0 = Domain_new t a Spherical" by (simp add: DomainFactory_create_def)
    with 1 show ?thesis
      by (simp add: factory_made_def DomainFactory_create_def Domain_new_as_config)
  next
    case 2
    with assms t have "d0 = Domain_new t a Cylindrical" by (simp add: DomainFactory_create_def)
    with 2 show ?thesis
      by (simp add: factory_made_def DomainFactory_create_def Domain_new_as_config)
  next
    case 3
    with assms t have "d0 = Domain_new t a Conic" by (simp add: DomainFactory_create_def)
    with 3 show ?thesis
      by (simp add: factory_made_def DomainFactory_create_def Domain_new_as_config)
  next
    case 4
    with assms t obtain sc oct pers where
      "d0 = Domain_new ''noise'' (Str ''noise'') (Noise sc oct pers perm)"
      and "NoiseDomain_new (Str ''noise'') perm
             = Inr (Domain_new ''noise'' (Str ''noise'') (Noise sc oct pers perm))"
      by (auto simp: DomainFactory_create_def NoiseDomain_new_def)
    then show ?thesis
      by (simp add: factory_made_def DomainFactory_create_def permutation_of_def)
  next
    case 5
    with assms t obtain v where
      "d0 = Domain_new ''harmonic'' (Str ''harmonic'') v"
      and "HarmonicDomain_new (Str ''harmonic'') = Inr (Domain_new ''harmonic'' (Str ''harmonic'') v)"
      by (auto simp: DomainFactory_create_def HarmonicDomain_new_def)
    then show ?thesis
      by (simp add: factory_made_def DomainFactory_create_def)
  next
    case 6
    with assms t obtain v where
      "d0 = Domain_new ''gaussian-curvature'' (Str ''gaussian-curvature'') v"
      and "GaussianCurvatureDomain_new (Str ''gaussian-curvature'')
             = Inr (Domain_new ''gaussian-curvature'' (Str ''gaussian-curvature'') v)"
      by (auto simp: DomainFactory_create_def GaussianCurvatureDomain_new_def)
    then show ?thesis
      by (simp add: factory_made_def DomainFactory_create_def)
  qed
qed

lemma createTransformationDomain_factory_made:
  assumes "\<forall>d \<in> set (transformationDomains st). factory_made d"
  shows "\<forall>d \<in> set (transformationDomains
            (snd (createTransformationDomain st c r ty opts now1 now2 perm))). factory_made d"
proof -
  have tl: "\<forall>d \<in> set (tl (transformationDomains st)). factory_made d"
    using assms by (cases "transformationDomains st") simp_all
  show ?thesis
    using assms tl
    by (auto simp: createTransformationDomain_def createDomain_def Let_def
        DomainFactory_create_factory_made split: sum.splits)
qed

lemma removeTransformationDomain_factory_made:
  "\<forall>d \<in> set (transformationDomains st). factory_made d \<Longrightarrow>
   \<forall>d \<in> set (transformationDomains (snd (removeTransformationDomain st n))). factory_made d"
  by (simp add: removeTransformationDomain_def Let_def)

section \<open>The inverse transform\<close>

lemma inverse_chain_foldr: "inverse_chain ds p = foldr Domain_inverse ds p"
  by (induction ds) simp_all

lemma inverseTransform_chain: "inverseTransform m p = inverse_chain (domains m) p"
  by (simp add: inverseTransform_def inverse_chain_foldr foldr_conv_foldl)

lemma inverse_chain_same_methods:
  "list_all2 same_methods ds' ds \<Longrightarrow> inverse_chain ds' p = inverse_chain ds p"
proof (induction rule: list_all2_induct)
  case Nil
  show ?case by simp
next
  case (Cons d' ds' d ds)
  then show ?case
    using Domain_inverse_cong [of d' d "inverse_chain ds p"] by (simp add: same_methods_def)
qed

text \<open>
  Claim C6. \<open>DeformationManager.inverseTransform\<close> composes the inversions of its domains
  in reverse order: the inverse of the last domain is applied to the point first, the
  inverse of the first domain last. The engine's \<open>inverseTransformPoint\<close> hands the
  registry to the legacy function, which builds its manager by passing every registered
  object to the factory again; for a registry of factory-made domains (the only ones the
  engine registers) the result is the chain of the registered domains' own inversions, in
  reverse registration order.
\<close>

theorem C6_inverse_reverse_order:
  "inverseTransform m p = inverse_chain (domains m) p \<and>
   inverseTransformPointWithDomains p configs bm rnd'
     = map_sum id (\<lambda>m'. inverse_chain (domains m') p)
         (addDomains rnd' 0 configs (DeformationManager_new\<lparr>manager_blendMode := bm\<rparr>)) \<and>
   ((\<forall>d \<in> set (transformationDomains st). factory_made d) \<longrightarrow>
      inverseTransformPoint st p rnd = Inr (inverse_chain (transformationDomains st) p))"
proof (intro conjI impI)
  show "inverseTransform m p = inverse_chain (domains m) p" by (rule inverseTransform_chain)
  show "inverseTransformPointWithDomains p configs bm rnd'
     = map_sum id (\<lambda>m'. inverse_chain (domains m') p)
         (addDomains rnd' 0 configs (DeformationManager_new\<lparr>manager_blendMode := bm\<rparr>))"
    by (simp add: inverseTransformPointWithDomains_def inverseTransform_chain split: sum.splits)
  assume "\<forall>d \<in> set (transformationDomains st). factory_made d"
  from addDomains_factory_made [OF this, of rnd 0
      "DeformationManager_new\<lparr>manager_blendMode := transformations_blendMode (mergedParams st)\<rparr>"]
  obtain ds' where
    a: "addDomains rnd 0 (map as_config (transformationDomains st))
          (DeformationManager_new\<lparr>manager_blendMode := transformations_blendMode (mergedParams st)\<rparr>)
        = Inr (DeformationManager_new\<lparr>manager_blendMode := transformations_blendMode (mergedParams st),
                 domains := ds'\<rparr>)"
    and l: "list_all2 same_methods ds' (transformationDomains st)"
    by (auto simp: DeformationManager_new_def)
  show "inverseTransformPoint st p rnd = Inr (inverse_chain (transformationDomains st) p)"
    using a inverse_chain_same_methods [OF l, of p]
    by (simp add: inverseTransformPoint_def inverseTransformPointWithDomains_def
        inverseTransform_chain)
qed


lemma engine_two_domains: "transformationDomains engine_two = [dom_sph, dom_cyl]"
  by (simp add: engine_two_def engine_sph_def engine0_def createTransformationDomain_def
      createAdaptiveGridModule_def defaultParams_def createDomain_def DomainFactory_create_def
      dom_sph_def dom_cyl_def Let_def)

text \<open>Claim C6 on the registry holding a spherical and then a cylindrical domain: the
  inverse of the cylindrical domain is applied first.\<close>

theorem C6_witness:
  "transformationDomains engine_two = [dom_sph, dom_cyl] \<and>
   inverseTransformPoint engine_two \<lparr>x = Num 3, y = Num 4\<rparr> (\<lambda>i. zero_table)
     = Inr (Domain_inverse dom_sph (Domain_inverse dom_cyl \<lparr>x = Num 3, y = Num 4\<rparr>))"
proof -
  have "\<forall>d \<in> set (transformationDomains engine0). factory_made d"
    by (simp add: engine0_def createAdaptiveGridModule_def)
  then have "\<forall>d \<in> set (transformationDomains engine_sph). factory_made d"
    unfolding engine_sph_def by (rule createTransformationDomain_factory_made)
  then have "\<forall>d \<in> set (transformationDomains engine_two). factory_made d"
    unfolding engine_two_def by (rule createTransformationDomain_factory_made)
  then show ?thesis
    using C6_inverse_reverse_order [of _ "\<lparr>x = Num 3, y = Num 4\<rparr>" _ _ _ engine_two
        "\<lambda>i. zero_table", THEN conjunct2, THEN conjunct2]
    by (simp add: engine_two_domains)
qed

section \<open>The forward transform\<close>

lemma foldl_weights:
  "foldl (\<lambda>sum dw. sum + snd dw) a (map (\<lambda>d. (d, weightAt d p)) ds)
     = a + sum_list (map (\<lambda>d. weightAt d p) ds)"
  by (induction ds arbitrary: a) (simp_all add: add.assoc)

lemma foldl_blend:
  "foldl (\<lambda>acc dw. case acc of (resultX, resultY) \<Rightarrow>
            if Num 0 < snd dw
            then (let transformed = transform (fst dw) p (Num 1)
                  in (resultX + snd dw * x transformed, resultY + snd dw * y transformed))
            else acc)
         (ax, ay) (map (\<lambda>d. (d, weightAt d p)) ds)
   = (ax + sum_list (map (\<lambda>d. weightAt d p * x (transform d p (Num 1))) (filter (active p) ds)),
      ay + sum_list (map (\<lambda>d. weightAt d p * y (transform d p (Num 1))) (filter (active p) ds)))"
  by (induction ds arbitrary: ax ay) (simp_all add: active_def Let_def add.assoc)

lemma calculateBlendingWeights_miss:
  assumes "blendingCache (cache st) (x p, y p) = None"
  shows "fst (calculateBlendingWeights st p) =
           \<lparr>transformWeights = map (\<lambda>d. (d, weightAt d p)) (transformationDomains st),
            flatWeight = spec_flatWeight (transformationDomains st) p\<rparr>"
    and "snd (calculateBlendingWeights st p) =
           st\<lparr>cache := (cache st)\<lparr>blendingCache := (blendingCache (cache st))((x p, y p) \<mapsto>
              \<lparr>transformWeights = map (\<lambda>d. (d, weightAt d p)) (transformationDomains st),
               flatWeight = spec_flatWeight (transformationDomains st) p\<rparr>)\<rparr>\<rparr>"
  using assms by (simp_all add: calculateBlendingWeights_def Let_def foldl_weights spec_flatWeight_def)

lemma calculateBlendingWeights_uncached:
  "fst (calculateBlendingWeights (uncached st) p) =
     \<lparr>transformWeights = map (\<lambda>d. (d, weightAt d p)) (transformationDomains st),
      flatWeight = spec_flatWeight (transformationDomains st) p\<rparr>"
  using calculateBlendingWeights_miss(1) [of "uncached st" p] by (simp add: uncached_def)

lemma calculateBlendingWeights_consistent:
  assumes "cache_consistent st"
  shows "fst (calculateBlendingWeights st p) =
           \<lparr>transformWeights = map (\<lambda>d. (d, weightAt d p)) (transformationDomains st),
            flatWeight = spec_flatWeight (transformationDomains st) p\<rparr>"
proof (cases "blendingCache (cache st) (x p, y p)")
  case None
  then show ?thesis by (rule calculateBlendingWeights_miss)
next
  case (Some b)
  from assms have "\<forall>c. blendingCache (cache st) (x p, y p) = Some c \<longrightarrow>
      c = fst (calculateBlendingWeights (uncached st) \<lparr>x = fst (x p, y p), y = snd (x p, y p)\<rparr>)"
    unfolding cache_consistent_def by blast
  with Some have "b = fst (calculateBlendingWeights (uncached st) p)" by simp
  with Some show ?thesis
    by (simp add: calculateBlendingWeights_uncached) (simp add: calculateBlendingWeights_def)
qed

lemma transformPoint_miss:
  assumes "transformationCache (cache st) (x p, y p) = None"
    and "fst (calculateBlendingWeights st p) =
           \<lparr>transformWeights = map (\<lambda>d. (d, weightAt d p)) (transformationDomains st),
            flatWeight = spec_flatWeight (transformationDomains st) p\<rparr>"
  shows "fst (transformPoint st p) = spec_transformPoint (transformationDomains st) p"
  using assms
  by (cases "calculateBlendingWeights st p")
    (simp add: transformPoint_def Let_def foldl_blend spec_transformPoint_def)

lemma transformPoint_uncached:
  "fst (transformPoint (uncached st) p) = spec_transformPoint (transformationDomains st) p"
  using transformPoint_miss [of "uncached st" p] calculateBlendingWeights_uncached [of st p]
  by (simp add: uncached_def)

lemma transformPoint_consistent:
  assumes "cache_consistent st"
  shows "fst (transformPoint st p) = spec_transformPoint (transformationDomains st) p"
proof (cases "transformationCache (cache st) (x p, y p)")
  case None
  then show ?thesis
    using calculateBlendingWeights_consistent [OF assms] by (rule transformPoint_miss)
next
  case (Some v)
  from assms have "\<forall>c. transformationCache (cache st) (x p, y p) = Some c \<longrightarrow>
      c = fst (transformPoint (uncached st) \<lparr>x = fst (x p, y p), y = snd (x p, y p)\<rparr>)"
    unfolding cache_consistent_def by blast
  with Some have "v = fst (transformPoint (uncached st) p)" by simp
  with Some show ?thesis
    by (simp add: transformPoint_uncached) (simp add: transformPoint_def)
qed

lemma spec_flatWeight_Nil [simp]: "spec_flatWeight [] p = Num 1"
  by (simp add: spec_flatWeight_def zero_jsnum_def)


text \<open>
  \<open>transformPoint\<close> answers from its cache when the cache holds the key of the point. In
  a state whose two point caches agree with the registry, and for every point \<open>p\<close>: the
  blending weights are the values of \<open>weightAt\<close> of the registered domains, not
  renormalised, with the flat weight \<open>max(0, 1 - sum of the weights)\<close>; \<open>transformPoint\<close>
  returns \<open>p\<close> when the flat weight is 1, in particular for an empty registry, and
  otherwise \<open>flatWeight * p\<close> plus the sum, over the domains with a positive weight, of
  \<open>weight * transform(p)\<close>, every transform being applied to \<open>p\<close> itself.
\<close>

lemma transformPoint_blend:
  assumes "cache_consistent st"
  shows "fst (calculateBlendingWeights st p) =
           \<lparr>transformWeights = map (\<lambda>d. (d, weightAt d p)) (transformationDomains st),
            flatWeight = Math_max (Num 0)
               (Num 1 - sum_list (map (\<lambda>d. weightAt d p) (transformationDomains st)))\<rparr> \<and>
         fst (transformPoint st p) = spec_transformPoint (transformationDomains st) p \<and>
         (spec_flatWeight (transformationDomains st) p = Num 1 \<longrightarrow> fst (transformPoint st p) = p) \<and>
         (transformationDomains st = [] \<longrightarrow> fst (transformPoint st p) = p)"
  using calculateBlendingWeights_consistent [OF assms, of p] transformPoint_consistent [OF assms, of p]
  by (auto simp: spec_flatWeight_def [symmetric] spec_transformPoint_def)


lemma cache_consistent_iff:
  "cache_consistent st \<longleftrightarrow>
     (\<forall>k v. transformationCache (cache st) k = Some v \<longrightarrow>
          v = spec_transformPoint (transformationDomains st) \<lparr>x = fst k, y = snd k\<rparr>) \<and>
     (\<forall>k b. blendingCache (cache st) k = Some b \<longrightarrow>
          b = \<lparr>transformWeights =
                 map (\<lambda>d. (d, weightAt d \<lparr>x = fst k, y = snd k\<rparr>)) (transformationDomains st),
               flatWeight = spec_flatWeight (transformationDomains st) \<lparr>x = fst k, y = snd k\<rparr>\<rparr>)"
  by (simp only: cache_consistent_def transformPoint_uncached calculateBlendingWeights_uncached)

lemma cache_consistent_empty:
  "transformationCache (cache st) = Map.empty \<Longrightarrow> blendingCache (cache st) = Map.empty \<Longrightarrow>
   cache_consistent st"
  by (simp add: cache_consistent_def)

lemma createAdaptiveGridModule_consistent: "cache_consistent (createAdaptiveGridModule canvas ps)"
  by (simp add: cache_consistent_empty createAdaptiveGridModule_def)

lemma createTransformationDomain_consistent:
  "fst (createTransformationDomain st c r ty opts now1 now2 perm) = Inr d \<Longrightarrow>
   cache_consistent (snd (createTransformationDomain st c r ty opts now1 now2 perm))"
  by (auto simp: createTransformationDomain_def Let_def cache_consistent_empty split: sum.splits)

lemma filter_same_length: "length (filter P xs) = length xs \<Longrightarrow> filter P xs = xs"
proof (induction xs)
  case Nil
  show ?case by simp
next
  case (Cons a xs)
  have "length (filter P xs) \<noteq> Suc (length xs)"
    using length_filter_le [of P xs] by linarith
  with Cons show ?case by (auto split: if_splits)
qed

lemma removeTransformationDomain_consistent:
  assumes "cache_consistent st"
  shows "cache_consistent (snd (removeTransformationDomain st n))"
proof (cases "length (filter (\<lambda>d. domain_id d \<noteq> Some n) (transformationDomains st))
                = length (transformationDomains st)")
  case True
  then have "filter (\<lambda>d. domain_id d \<noteq> Some n) (transformationDomains st) = transformationDomains st"
    by (rule filter_same_length)
  then show ?thesis using assms by (simp add: removeTransformationDomain_def Let_def)
next
  case False
  then show ?thesis
    by (simp add: removeTransformationDomain_def Let_def cache_consistent_empty)
qed

lemma clearTransformationDomains_consistent: "cache_consistent (clearTransformationDomains st)"
  by (simp add: clearTransformationDomains_def cache_consistent_empty)

lemma engine_sph_domains: "transformationDomains engine_sph = [dom_sph]"
  by (simp add: engine_sph_def engine0_def createTransformationDomain_def
      createAdaptiveGridModule_def defaultParams_def createDomain_def DomainFactory_create_def
      dom_sph_def Let_def)

lemma dom_sph_weight: "weightAt dom_sph \<lparr>x = Num 50, y = Num 0\<rparr> = Num (1 / 2)"
  by (simp add: dom_sph_def weightAt_def Domain_new_def property_def empty_config_def js_or_def
      Let_def Math_PI_def)

lemma dom_sph_transform:
  "transform dom_sph \<lparr>x = Num 50, y = Num 0\<rparr> (Num 1) = \<lparr>x = Num 80, y = Num 0\<rparr>"
  by (simp add: dom_sph_def transform_def Domain_new_def property_def empty_config_def js_or_def
      Let_def stereographicProjection_def complex_fromPoint_def complex_abs_def)


lemma engine_sph_consistent: "cache_consistent engine_sph"
  unfolding engine_sph_def
  by (rule createTransformationDomain_consistent [where d = dom_sph])
    (simp add: engine0_def createTransformationDomain_def
      createAdaptiveGridModule_def defaultParams_def createDomain_def DomainFactory_create_def
      dom_sph_def Let_def)

text \<open>The blend on the empty registry, and on the registry that holds one spherical domain
  of radius 100 around the origin, at the point \<open>(50, 0)\<close>: the weight is 1/2, the domain
  maps the point to \<open>(80, 0)\<close>, and the blend is \<open>(65, 0)\<close>.\<close>

lemma transformPoint_blend_examples:
  "fst (transformPoint engine0 \<lparr>x = Num 3, y = Num 4\<rparr>) = \<lparr>x = Num 3, y = Num 4\<rparr> \<and>
   fst (transformPoint engine_sph \<lparr>x = Num 50, y = Num 0\<rparr>) = \<lparr>x = Num 65, y = Num 0\<rparr>"
proof -
  have c0: "cache_consistent engine0"
    by (simp add: engine0_def createAdaptiveGridModule_consistent)
  have d0: "transformationDomains engine0 = []"
    by (simp add: engine0_def createAdaptiveGridModule_def)
  note c1 = engine_sph_consistent
  show ?thesis
    using transformPoint_blend [OF c0, of "\<lparr>x = Num 3, y = Num 4\<rparr>"] d0
      transformPoint_blend [OF c1, of "\<lparr>x = Num 50, y = Num 0\<rparr>"]
    by (simp add: engine_sph_domains spec_transformPoint_def spec_flatWeight_def active_def
        dom_sph_weight dom_sph_transform zero_jsnum_def)
qed

section \<open>The effective grid size\<close>

lemma foldl_sizeAdjustment:
  "foldl (\<lambda>acc d.
            (let weight = weightAt d p
             in if Num 0 < weight
                then acc * (curvatureFactor d p * (Num 1 - weight)
                            + (Num 1 - weight * Num (1 / 2)) * weight)
                else acc))
         a ds
   = a * prod_list (map (\<lambda>d. curvatureFactor d p * (Num 1 - weightAt d p)
                               + (Num 1 - weightAt d p / Num 2) * weightAt d p)
                        (filter (nonzero_weight p) ds))"
  by (induction ds arbitrary: a)
    (simp_all add: Let_def active_iff_nonzero [unfolded active_def] half_js mult.assoc one_jsnum_def)

lemma calculateGridSize_spec: "calculateGridSize m p baseSize = spec_gridSize (domains m) p baseSize"
  by (simp add: calculateGridSize_def spec_gridSize_def spec_multiplier_def foldl_sizeAdjustment)

lemma spec_multiplier_same_methods:
  "list_all2 same_methods ds' ds \<Longrightarrow> spec_multiplier ds' p = spec_multiplier ds p"
  by (induction rule: list_all2_induct)
    (simp_all add: spec_multiplier_def same_methods_def nonzero_weight_def)

lemma spec_multiplier_inactive:
  "\<forall>d \<in> set ds. \<not> nonzero_weight p d \<Longrightarrow> spec_multiplier ds p = Num 1"
  by (induction ds) (simp_all add: spec_multiplier_def one_jsnum_def)

lemma engine_calculateEffectiveGridSize_spec:
  assumes "\<forall>d \<in> set (transformationDomains st). factory_made d"
  shows "engine_calculateEffectiveGridSize st p rnd
           = Inr (spec_gridSize (transformationDomains st) p (grid_size (mergedParams st)))"
proof -
  from addDomains_factory_made [OF assms, of rnd 0 DeformationManager_new]
  obtain ds' where
    a: "addDomains rnd 0 (map as_config (transformationDomains st)) DeformationManager_new
          = Inr (DeformationManager_new\<lparr>domains := ds'\<rparr>)"
    and l: "list_all2 same_methods ds' (transformationDomains st)"
    by (auto simp: DeformationManager_new_def)
  show ?thesis
    using a spec_multiplier_same_methods [OF l, of p]
    by (simp add: engine_calculateEffectiveGridSize_def calculateEffectiveGridSize_def
        calculateGridSize_spec spec_gridSize_def)
qed

text \<open>
  Claim C8. For every point and base size, \<open>calculateGridSize\<close> starts from a multiplier of
  1, multiplies it by \<open>curvatureFactor * (1 - weight) + (1 - weight/2) * weight\<close> for every
  domain with a nonzero weight at the point, and returns
  \<open>max(baseSize * 0.2, baseSize * multiplier)\<close>, which is never below a fifth of the base
  size. When no domain has a nonzero weight at the point, a base size of 20 gives exactly
  20; so does the legacy function on an empty list of domains. The engine's
  \<open>calculateEffectiveGridSize\<close> computes the same value from its registry (of factory-made
  domains) and its base grid size.
\<close>

theorem C8_effective_grid_size:
  "calculateGridSize m p baseSize = spec_gridSize (domains m) p baseSize \<and>
   \<not> calculateGridSize m p baseSize < baseSize * Num (2 / 10) \<and>
   ((\<forall>d \<in> set (domains m). \<not> nonzero_weight p d) \<longrightarrow> calculateGridSize m p (Num 20) = Num 20) \<and>
   calculateEffectiveGridSize p configs baseSize rnd
     = map_sum id (\<lambda>m'. spec_gridSize (domains m') p baseSize)
         (addDomains rnd 0 configs DeformationManager_new) \<and>
   calculateEffectiveGridSize p [] (Num 20) rnd = Inr (Num 20) \<and>
   ((\<forall>d \<in> set (transformationDomains st). factory_made d) \<longrightarrow>
      engine_calculateEffectiveGridSize st p rnd
        = Inr (spec_gridSize (transformationDomains st) p (grid_size (mergedParams st))))"
proof (intro conjI impI)
  show "calculateGridSize m p baseSize = spec_gridSize (domains m) p baseSize"
    by (rule calculateGridSize_spec)
  show "\<not> calculateGridSize m p baseSize < baseSize * Num (2 / 10)"
    by (simp add: calculateGridSize_def Let_def Math_max_not_below)
  show "calculateGridSize m p (Num 20) = Num 20" if "\<forall>d \<in> set (domains m). \<not> nonzero_weight p d"
    using spec_multiplier_inactive [OF that] by (simp add: calculateGridSize_spec spec_gridSize_def)
  show "calculateEffectiveGridSize p configs baseSize rnd
     = map_sum id (\<lambda>m'. spec_gridSize (domains m') p baseSize)
         (addDomains rnd 0 configs DeformationManager_new)"
    by (simp add: calculateEffectiveGridSize_def calculateGridSize_spec split: sum.splits)
  show "calculateEffectiveGridSize p [] (Num 20) rnd = Inr (Num 20)"
    by (simp add: calculateEffectiveGridSize_def DeformationManager_new_def calculateGridSize_def)
  show "engine_calculateEffectiveGridSize st p rnd
          = Inr (spec_gridSize (transformationDomains st) p (grid_size (mergedParams st)))"
    if "\<forall>d \<in> set (transformationDomains st). factory_made d"
    using that by (rule engine_calculateEffectiveGridSize_spec)
qed

lemma engine_sph_factory_made: "\<forall>d \<in> set (transformationDomains engine_sph). factory_made d"
proof -
  have "\<forall>d \<in> set (transformationDomains engine0). factory_made d"
    by (simp add: engine0_def createAdaptiveGridModule_def)
  then show ?thesis
    unfolding engine_sph_def by (rule createTransformationDomain_factory_made)
qed

lemma dom_sph_fields:
  "type dom_sph = ''spherical''" "center dom_sph = \<lparr>x = Num 0, y = Num 0\<rparr>"
  "radius dom_sph = Num 100" "blendMode dom_sph = Smooth" "variant dom_sph = Spherical"
  by (simp_all add: dom_sph_def Domain_new_def property_def empty_config_def js_or_def Let_def)

text \<open>Claim C8 at a spherical domain of radius 100 around the origin: at \<open>(200, 0)\<close> it has
  weight 0 and the size stays 20; at its centre it has weight 1 and curvature factor 1/2,
  and the engine returns 10.\<close>

theorem C8_witness:
  "calculateGridSize \<lparr>domains = [dom_sph], manager_blendMode = None\<rparr> \<lparr>x = Num 200, y = Num 0\<rparr> (Num 20)
     = Num 20 \<and>
   engine_calculateEffectiveGridSize engine_sph \<lparr>x = Num 0, y = Num 0\<rparr> (\<lambda>i. zero_table)
     = Inr (Num 10)"
proof -
  have w: "weightAt dom_sph \<lparr>x = Num 200, y = Num 0\<rparr> = Num 0"
    "weightAt dom_sph \<lparr>x = Num 0, y = Num 0\<rparr> = Num 1"
    by (simp_all add: weightAt_def dom_sph_fields Math_PI_def)
  have c: "curvatureFactor dom_sph \<lparr>x = Num 0, y = Num 0\<rparr> = Num (1 / 2)"
    by (simp add: curvatureFactor_def dom_sph_fields)
  have g: "grid_size (mergedParams engine_sph) = Num 20"
    by (simp add: engine_sph_def engine0_def createTransformationDomain_def
        createAdaptiveGridModule_def defaultParams_def Let_def split: sum.splits)
  show ?thesis
    using C8_effective_grid_size [of "\<lparr>domains = [dom_sph], manager_blendMode = None\<rparr>"
        "\<lparr>x = Num 200, y = Num 0\<rparr>" _ "[]" _ engine0]
      C8_effective_grid_size [of _ "\<lparr>x = Num 0, y = Num 0\<rparr>" _ "[]" "\<lambda>i. zero_table" engine_sph]
      engine_sph_factory_made
    by (simp add: nonzero_weight_def w c g engine_sph_domains spec_gridSize_def spec_multiplier_def)
qed

section \<open>The legacy blending path\<close>

lemma foldl_legacy:
  "foldl (\<lambda>acc d. case acc of (totalX, totalY, totalWeight) \<Rightarrow>
            (let weight = weightAt d p
             in if Num 0 < weight
                then (let transformed = transform d p (Num 1)
                      in (totalX + x transformed * weight, totalY + y transformed * weight,
                          totalWeight + weight))
                else acc))
         (ax, ay, aw) ds
   = (ax + sum_list (map (\<lambda>d. weightAt d p * x (transform d p (Num 1))) (filter (active p) ds)),
      ay + sum_list (map (\<lambda>d. weightAt d p * y (transform d p (Num 1))) (filter (active p) ds)),
      aw + sum_list (map (\<lambda>d. weightAt d p) (filter (active p) ds)))"
  by (induction ds arbitrary: ax ay aw) (simp_all add: active_def Let_def add.assoc mult.commute)

lemma pos_add_js: "Num 0 < a \<Longrightarrow> Num 0 < b \<Longrightarrow> Num 0 < a + b"
  by (cases a; cases b) simp_all

lemma pos_sum_list_js:
  "\<forall>a \<in> set ws. Num 0 < a \<Longrightarrow> ws \<noteq> [] \<Longrightarrow> Num 0 < sum_list ws"
proof (induction ws)
  case Nil
  then show ?case by simp
next
  case (Cons a ws)
  show ?case
  proof (cases "ws = []")
    case True
    with Cons.prems show ?thesis by (simp add: zero_jsnum_def)
  next
    case False
    with Cons show ?thesis by (simp add: pos_add_js)
  qed
qed

lemma active_weight_sum:
  "(Num 0 < sum_list (map (\<lambda>d. weightAt d p) (filter (active p) ds))) = (\<exists>d \<in> set ds. active p d)"
proof (cases "filter (active p) ds = []")
  case True
  then show ?thesis by (auto simp: zero_jsnum_def filter_empty_conv)
next
  case False
  then have "Num 0 < sum_list (map (\<lambda>d. weightAt d p) (filter (active p) ds))"
    by (intro pos_sum_list_js) (auto simp: active_def)
  with False show ?thesis by (auto simp: filter_empty_conv)
qed

lemma DeformationManager_transformPoint_spec:
  "DeformationManager_transformPoint m p = spec_normalized_average (domains m) p"
proof (cases "domains m = []")
  case True
  then show ?thesis by (simp add: DeformationManager_transformPoint_def spec_normalized_average_def)
next
  case False
  then show ?thesis
    using active_weight_sum [of p "domains m"]
    by (simp add: DeformationManager_transformPoint_def spec_normalized_average_def foldl_legacy)
qed

lemma mult_div_cancel_js: "0 < w \<Longrightarrow> (Num w * a) / Num w = a"
  by (cases a) simp_all

lemma filter_single_active:
  assumes "\<forall>e \<in> set (ds1 @ ds2). weightAt e p = Num 0" and "weightAt d p = Num w" and "0 < w"
  shows "filter (active p) (ds1 @ d # ds2) = [d]"
  using assms by (auto simp: active_def filter_empty_conv)

lemma sum_weights_single:
  assumes "\<forall>e \<in> set (ds1 @ ds2). weightAt e p = Num 0" and "weightAt d p = Num w"
  shows "sum_list (map (\<lambda>e. weightAt e p) (ds1 @ d # ds2)) = Num w"
proof -
  have z: "\<forall>e \<in> set ds. weightAt e p = Num 0 \<Longrightarrow> sum_list (map (\<lambda>e. weightAt e p) ds) = Num 0" for ds
    by (induction ds) (simp_all add: zero_jsnum_def)
  show ?thesis using assms z [of ds1] z [of ds2] by simp
qed

lemma legacy_single:
  assumes "domains m = ds1 @ d # ds2" and "\<forall>e \<in> set (ds1 @ ds2). weightAt e p = Num 0"
    and "weightAt d p = Num w" and "0 < w"
  shows "DeformationManager_transformPoint m p = transform d p (Num 1)"
proof -
  have f: "filter (active p) (domains m) = [d]"
    using assms by (simp only: filter_single_active)
  have a: "\<exists>e \<in> set (domains m). active p e"
    using assms by (auto simp: active_def)
  show ?thesis
    using a f assms(3,4)
    by (simp add: DeformationManager_transformPoint_spec spec_normalized_average_def
        mult_div_cancel_js)
qed

text \<open>With no entry for the point in the two point caches the engine computes the blend.\<close>

lemma transformPoint_fresh:
  assumes "transformationCache (cache st) (x p, y p) = None"
    and "blendingCache (cache st) (x p, y p) = None"
  shows "fst (transformPoint st p) = spec_transformPoint (transformationDomains st) p"
  using assms(1) calculateBlendingWeights_miss(1) [OF assms(2)] by (rule transformPoint_miss)

lemma engine_single:
  assumes "transformationCache (cache st) (x p, y p) = None"
    and "blendingCache (cache st) (x p, y p) = None"
    and "transformationDomains st = ds1 @ d # ds2"
    and "\<forall>e \<in> set (ds1 @ ds2). weightAt e p = Num 0"
    and "weightAt d p = Num w" and "0 < w" and "w < 1"
    and "p = \<lparr>x = Num px, y = Num py\<rparr>" and "transform d p (Num 1) = \<lparr>x = Num tx, y = Num ty\<rparr>"
  shows "fst (transformPoint st p)
           = \<lparr>x = Num ((1 - w) * px + w * tx), y = Num ((1 - w) * py + w * ty)\<rparr>"
proof -
  have f: "filter (active p) (transformationDomains st) = [d]"
    using assms by (simp only: filter_single_active)
  have s: "spec_flatWeight (transformationDomains st) p = Num (1 - w)"
    using sum_weights_single [OF assms(4,5)] assms(3,6,7) by (simp add: spec_flatWeight_def)
  show ?thesis
    using transformPoint_fresh [OF assms(1,2)] f s assms(5,6,8,9)
    by (simp add: spec_transformPoint_def)
qed

text \<open>
  Claim C10, as amended. \<open>DeformationManager.transformPoint\<close> (and
  \<open>transformPointWithDomains\<close>, which builds a manager and calls it) returns the point
  unchanged when no domain has a positive weight at it, and otherwise the weight-normalised
  average \<open>(sum of weight * transform(p)) / (sum of weight)\<close> over the domains with a
  positive weight, with no flat contribution. When one domain has a weight strictly between
  0 and 1 at \<open>p\<close> and every other domain has weight 0 there, the result is that domain's
  transform of \<open>p\<close>; and then, for a point \<open>p\<close> and a transform of \<open>p\<close> with finite
  coordinates and an engine on the same domains whose forward-transform cache and
  blend-weight cache hold no entry for \<open>p\<close>, it coincides with the engine's \<open>transformPoint\<close> exactly when the domain's transform fixes
  \<open>p\<close>. Arithmetic is exact: rounding is not modelled.
\<close>

theorem C10_legacy_average:
  "DeformationManager_transformPoint m p = spec_normalized_average (domains m) p \<and>
   transformPointWithDomains p configs bm rnd
     = map_sum id (\<lambda>m'. spec_normalized_average (domains m') p)
         (addDomains rnd 0 configs
            (DeformationManager_new
               \<lparr>manager_blendMode := (case bm of None \<Rightarrow> Some Smooth | Some b \<Rightarrow> Some b)\<rparr>)) \<and>
   (domains m = ds1 @ d # ds2 \<and> (\<forall>e \<in> set (ds1 @ ds2). weightAt e p = Num 0) \<and>
    weightAt d p = Num w \<and> 0 < w \<and> w < 1 \<longrightarrow>
      DeformationManager_transformPoint m p = transform d p (Num 1) \<and>
      (transformationCache (cache st) (x p, y p) = None \<and>
       blendingCache (cache st) (x p, y p) = None \<and>
       transformationDomains st = domains m \<and>
       finite_point p \<and> finite_point (transform d p (Num 1)) \<longrightarrow>
         (DeformationManager_transformPoint m p = fst (transformPoint st p))
           = (transform d p (Num 1) = p)))"
proof (intro conjI impI)
  show "DeformationManager_transformPoint m p = spec_normalized_average (domains m) p"
    by (rule DeformationManager_transformPoint_spec)
  show "transformPointWithDomains p configs bm rnd
     = map_sum id (\<lambda>m'. spec_normalized_average (domains m') p)
         (addDomains rnd 0 configs
            (DeformationManager_new
               \<lparr>manager_blendMode := (case bm of None \<Rightarrow> Some Smooth | Some b \<Rightarrow> Some b)\<rparr>))"
    by (simp add: transformPointWithDomains_def DeformationManager_transformPoint_spec
        split: sum.splits)
next
  assume a: "domains m = ds1 @ d # ds2 \<and> (\<forall>e \<in> set (ds1 @ ds2). weightAt e p = Num 0) \<and>
    weightAt d p = Num w \<and> 0 < w \<and> w < 1"
  then show l: "DeformationManager_transformPoint m p = transform d p (Num 1)"
    by (intro legacy_single [of m ds1 d ds2 p w]) simp_all
  assume b: "transformationCache (cache st) (x p, y p) = None \<and>
       blendingCache (cache st) (x p, y p) = None \<and>
       transformationDomains st = domains m \<and>
       finite_point p \<and> finite_point (transform d p (Num 1))"
  then obtain px py tx ty where p: "p = \<lparr>x = Num px, y = Num py\<rparr>"
    and t: "transform d p (Num 1) = \<lparr>x = Num tx, y = Num ty\<rparr>"
    by (auto simp: finite_point_def)
  have e: "fst (transformPoint st p)
           = \<lparr>x = Num ((1 - w) * px + w * tx), y = Num ((1 - w) * py + w * ty)\<rparr>"
    using a b by (intro engine_single [of st p ds1 d ds2 w px py tx ty] p t) simp_all
  have k: "((1 - w) * u + w * v = v) = (v = u)" for u v :: real
  proof -
    have "((1 - w) * u + w * v = v) = ((1 - w) * (u - v) = 0)"
      by (simp add: algebra_simps)
    also have "\<dots> = (v = u)" using a by auto
    finally show ?thesis .
  qed
  from k [of px tx] k [of py ty] show "(DeformationManager_transformPoint m p = fst (transformPoint st p))
           = (transform d p (Num 1) = p)"
    using l e t p by auto
qed

text \<open>The amended claim at one spherical domain of radius 100 around the origin and the
  point \<open>(50, 0)\<close>, where the weight is 1/2: the legacy path returns the domain's transform
  \<open>(80, 0)\<close>, the engine returns another point.\<close>

theorem C10_witness:
  "DeformationManager_transformPoint mgr_sph \<lparr>x = Num 50, y = Num 0\<rparr> = \<lparr>x = Num 80, y = Num 0\<rparr> \<and>
   DeformationManager_transformPoint mgr_sph \<lparr>x = Num 50, y = Num 0\<rparr>
     \<noteq> fst (transformPoint engine_sph \<lparr>x = Num 50, y = Num 0\<rparr>)"
proof -
  let ?p = "\<lparr>x = Num 50, y = Num 0\<rparr>"
  have c: "transformationCache (cache engine_sph) = Map.empty"
    "blendingCache (cache engine_sph) = Map.empty"
    by (simp_all add: engine_sph_def engine0_def createTransformationDomain_def
      createAdaptiveGridModule_def defaultParams_def createDomain_def DomainFactory_create_def
      Let_def)
  have h1: "domains mgr_sph = [] @ dom_sph # [] \<and>
      (\<forall>e \<in> set ([] @ []). weightAt e ?p = Num 0) \<and>
      weightAt dom_sph ?p = Num (1 / 2) \<and> (0::real) < 1 / 2 \<and> (1::real) / 2 < 1"
    by (simp add: mgr_sph_def dom_sph_weight)
  have h2: "transformationCache (cache engine_sph) (x ?p, y ?p) = None \<and>
      blendingCache (cache engine_sph) (x ?p, y ?p) = None \<and>
      transformationDomains engine_sph = domains mgr_sph \<and>
      finite_point ?p \<and> finite_point (transform dom_sph ?p (Num 1))"
    by (simp add: c mgr_sph_def engine_sph_domains dom_sph_transform finite_point_def)
  note inst = C10_legacy_average [of mgr_sph ?p _ _ _ "[]" dom_sph "[]" "1 / 2" engine_sph,
      THEN conjunct2, THEN conjunct2, rule_format, OF h1]
  have "DeformationManager_transformPoint mgr_sph ?p = transform dom_sph ?p (Num 1)"
    by (rule inst [THEN conjunct1])
  moreover have "(DeformationManager_transformPoint mgr_sph ?p = fst (transformPoint engine_sph ?p))
      = (transform dom_sph ?p (Num 1) = ?p)"
    by (rule inst [THEN conjunct2, rule_format, OF h2])
  ultimately show ?thesis
    by (simp add: dom_sph_transform)
qed

text \<open>Claim C10 as stated fails when another domain has weight 1. At \<open>(50, 0)\<close> the spherical
  domain has weight 1/2, so it is the one domain with a weight strictly between 0 and 1, and
  maps the point to \<open>(80, 0)\<close>; the cylindrical domain has weight 1 and maps the point to
  \<open>(0, -80)\<close>; the legacy path returns their average \<open>(80/3, -160/3)\<close>, not \<open>(80, 0)\<close>.\<close>

theorem C10_counterexample:
  "domains mgr_two = [dom_sph, dom_cyl] \<and>
   weightAt dom_sph \<lparr>x = Num 50, y = Num 0\<rparr> = Num (1 / 2) \<and>
   weightAt dom_cyl \<lparr>x = Num 50, y = Num 0\<rparr> = Num 1 \<and>
   transform dom_sph \<lparr>x = Num 50, y = Num 0\<rparr> (Num 1) = \<lparr>x = Num 80, y = Num 0\<rparr> \<and>
   DeformationManager_transformPoint mgr_two \<lparr>x = Num 50, y = Num 0\<rparr>
     = \<lparr>x = Num (80 / 3), y = Num (- 160 / 3)\<rparr> \<and>
   DeformationManager_transformPoint mgr_two \<lparr>x = Num 50, y = Num 0\<rparr>
     \<noteq> transform dom_sph \<lparr>x = Num 50, y = Num 0\<rparr> (Num 1)"
proof -
  let ?p = "\<lparr>x = Num 50, y = Num 0\<rparr>"
  have wc: "weightAt dom_cyl ?p = Num 1"
    by (simp add: dom_cyl_def weightAt_def Domain_new_def property_def empty_config_def js_or_def
      Let_def Math_PI_def)
  have tc: "transform dom_cyl ?p (Num 1) = \<lparr>x = Num 0, y = Num (- 80)\<rparr>"
    by (simp add: dom_cyl_def transform_def Domain_new_def property_def empty_config_def
      js_or_def Let_def cylindricalMapping_def atan2_real_def)
  have "DeformationManager_transformPoint mgr_two ?p = \<lparr>x = Num (80 / 3), y = Num (- 160 / 3)\<rparr>"
    by (simp add: DeformationManager_transformPoint_spec spec_normalized_average_def mgr_two_def
        active_def dom_sph_weight dom_sph_transform wc tc zero_jsnum_def)
  then show ?thesis
    by (simp add: mgr_two_def dom_sph_weight dom_sph_transform wc)
qed


section \<open>Snapping\<close>

lemma round_multiple_nearest:
  assumes "g \<noteq> 0"
  shows "Math_round (Num a / Num g) * Num g = Num (of_int (round (a / g)) * g) \<and>
         (\<forall>j::int. \<bar>of_int (round (a / g)) * g - a\<bar> \<le> \<bar>of_int j * g - a\<bar>)"
proof (intro conjI allI)
  show "Math_round (Num a / Num g) * Num g = Num (of_int (round (a / g)) * g)"
    using assms by (simp add: round_def)
  fix j :: int
  have "\<bar>a / g - of_int (round (a / g))\<bar> \<le> \<bar>a / g - of_int j\<bar>"
    by (rule round_diff_minimal)
  then have "\<bar>a / g - of_int (round (a / g))\<bar> * \<bar>g\<bar> \<le> \<bar>a / g - of_int j\<bar> * \<bar>g\<bar>"
    by (rule mult_right_mono) simp
  then have "\<bar>(a / g - of_int (round (a / g))) * g\<bar> \<le> \<bar>(a / g - of_int j) * g\<bar>"
    by (simp only: abs_mult)
  then have "\<bar>a - of_int (round (a / g)) * g\<bar> \<le> \<bar>a - of_int j * g\<bar>"
    using assms by (simp add: left_diff_distrib)
  then show "\<bar>of_int (round (a / g)) * g - a\<bar> \<le> \<bar>of_int j * g - a\<bar>"
    by (simp add: abs_minus_commute)
qed

lemma snapToGrid_spec:
  assumes "grid_snapToGrid (mergedParams st)" and "enabled (snappingSettings st)"
    and "mode (snappingSettings st) \<noteq> NONE"
    and "\<forall>d \<in> set (transformationDomains st). factory_made d" and "cache_consistent st"
  shows "map_sum id fst (snapToGrid st p rnd1 rnd2) =
           Inr (spec_transformPoint (transformationDomains st)
                  (let q = inverse_chain (transformationDomains st) p;
                       g = spec_gridSize (transformationDomains st) q (grid_size (mergedParams st))
                   in \<lparr>x = Math_round (x q / g) * g, y = Math_round (y q / g) * g\<rparr>))"
proof -
  have i: "inverseTransformPoint st p rnd1 = Inr (inverse_chain (transformationDomains st) p)"
    using assms(4) addDomains_factory_made [OF assms(4), of rnd1 0
        "DeformationManager_new\<lparr>manager_blendMode := transformations_blendMode (mergedParams st)\<rparr>"]
      inverse_chain_same_methods [of _ "transformationDomains st" p]
    by (auto simp: inverseTransformPoint_def inverseTransformPointWithDomains_def
        inverseTransform_chain DeformationManager_new_def)
  show ?thesis
    using assms(1,2,3) i engine_calculateEffectiveGridSize_spec [OF assms(4)]
      transformPoint_consistent [OF assms(5)]
    by (simp add: snapToGrid_def snapTransformedPoint_def snapToGridPoint_def Let_def)
qed

text \<open>
  Claim C9. \<open>snapTransformedPoint\<close> returns the point unchanged when snapping is disabled or
  the mode is \<open>none\<close>; otherwise it inverse-transforms the point, computes the effective grid
  size at the resulting original-space point, rounds each coordinate of that point to a
  multiple of the grid size (\<open>Math.round(c / g) * g\<close>, which for finite values and a
  nonzero grid size is a multiple of the grid size nearest to the coordinate), and
  forward-transforms the snapped point. The engine's \<open>snapToGrid\<close> returns the point
  unchanged when the parameter \<open>snapToGrid\<close> is off and otherwise runs this with its own
  transform, inverse transform and effective grid size. With a grid size of 10, snapping
  enabled and no domain, \<open>(7, 7)\<close> snaps to \<open>(10, 10)\<close>.
\<close>

theorem C9_snap:
  "((\<not> enabled s \<or> mode s = NONE) \<longrightarrow> snapTransformedPoint s p tf ivf gsf u = Inr (p, u)) \<and>
   (enabled s \<and> mode s \<noteq> NONE \<and> ivf p u = Inr (q, u1) \<and> gsf q u1 = Inr (g, u2) \<longrightarrow>
      snapTransformedPoint s p tf ivf gsf u
        = tf \<lparr>x = Math_round (x q / g) * g, y = Math_round (y q / g) * g\<rparr> u2) \<and>
   (c \<noteq> 0 \<longrightarrow>
      Math_round (Num a / Num c) * Num c = Num (of_int (round (a / c)) * c) \<and>
      (\<forall>j::int. \<bar>of_int (round (a / c)) * c - a\<bar> \<le> \<bar>of_int j * c - a\<bar>)) \<and>
   (\<not> grid_snapToGrid (mergedParams st) \<longrightarrow> snapToGrid st p rnd1 rnd2 = Inr (p, st)) \<and>
   (grid_snapToGrid (mergedParams st) \<and> enabled (snappingSettings st) \<and>
    mode (snappingSettings st) \<noteq> NONE \<and>
    (\<forall>d \<in> set (transformationDomains st). factory_made d) \<and> cache_consistent st \<longrightarrow>
      map_sum id fst (snapToGrid st p rnd1 rnd2) =
        Inr (spec_transformPoint (transformationDomains st)
               (let q = inverse_chain (transformationDomains st) p;
                    g = spec_gridSize (transformationDomains st) q (grid_size (mergedParams st))
                in \<lparr>x = Math_round (x q / g) * g, y = Math_round (y q / g) * g\<rparr>))) \<and>
   map_sum id fst
     (snapToGrid (createAdaptiveGridModule canvas (defaultParams\<lparr>grid_size := Num 10\<rparr>))
        \<lparr>x = Num 7, y = Num 7\<rparr> rnd1 rnd2)
     = Inr \<lparr>x = Num 10, y = Num 10\<rparr>"
proof (intro conjI impI)
  show "snapTransformedPoint s p tf ivf gsf u = Inr (p, u)" if "\<not> enabled s \<or> mode s = NONE"
    using that by (simp add: snapTransformedPoint_def)
  show "snapTransformedPoint s p tf ivf gsf u
        = tf \<lparr>x = Math_round (x q / g) * g, y = Math_round (y q / g) * g\<rparr> u2"
    if "enabled s \<and> mode s \<noteq> NONE \<and> ivf p u = Inr (q, u1) \<and> gsf q u1 = Inr (g, u2)"
    using that by (simp add: snapTransformedPoint_def snapToGridPoint_def)
  show "Math_round (Num a / Num c) * Num c = Num (of_int (round (a / c)) * c)" if "c \<noteq> 0"
    using round_multiple_nearest [OF that] by blast
  show "\<forall>j::int. \<bar>of_int (round (a / c)) * c - a\<bar> \<le> \<bar>of_int j * c - a\<bar>" if "c \<noteq> 0"
    using round_multiple_nearest [OF that] by blast
  show "snapToGrid st p rnd1 rnd2 = Inr (p, st)" if "\<not> grid_snapToGrid (mergedParams st)"
    using that by (simp add: snapToGrid_def)
  show "map_sum id fst (snapToGrid st p rnd1 rnd2) =
        Inr (spec_transformPoint (transformationDomains st)
               (let q = inverse_chain (transformationDomains st) p;
                    g = spec_gridSize (transformationDomains st) q (grid_size (mergedParams st))
                in \<lparr>x = Math_round (x q / g) * g, y = Math_round (y q / g) * g\<rparr>))"
    if "grid_snapToGrid (mergedParams st) \<and> enabled (snappingSettings st) \<and>
        mode (snappingSettings st) \<noteq> NONE \<and>
        (\<forall>d \<in> set (transformationDomains st). factory_made d) \<and> cache_consistent st"
    using that by (intro snapToGrid_spec) simp_all
  let ?st = "createAdaptiveGridModule canvas (defaultParams\<lparr>grid_size := Num 10\<rparr>)"
  have "map_sum id fst (snapToGrid ?st \<lparr>x = Num 7, y = Num 7\<rparr> rnd1 rnd2) =
        Inr (spec_transformPoint (transformationDomains ?st)
               (let q = inverse_chain (transformationDomains ?st) \<lparr>x = Num 7, y = Num 7\<rparr>;
                    g = spec_gridSize (transformationDomains ?st) q (grid_size (mergedParams ?st))
                in \<lparr>x = Math_round (x q / g) * g, y = Math_round (y q / g) * g\<rparr>))"
    by (intro snapToGrid_spec)
      (simp_all add: createAdaptiveGridModule_consistent,
       simp_all add: createAdaptiveGridModule_def defaultParams_def defaultSettings_def)
  then show "map_sum id fst (snapToGrid ?st \<lparr>x = Num 7, y = Num 7\<rparr> rnd1 rnd2)
     = Inr \<lparr>x = Num 10, y = Num 10\<rparr>"
    by (simp add: createAdaptiveGridModule_def defaultParams_def spec_transformPoint_def
        spec_gridSize_def spec_multiplier_def one_jsnum_def Let_def)
qed


text \<open>Claim C9 with disabled settings, with the default settings and callbacks that fix
  the grid size at 10, on the engine whose parameter \<open>snapToGrid\<close> is off, and on the engine
  with base grid size 10 and no domain.\<close>

theorem C9_witness:
  "snapTransformedPoint settings_off \<lparr>x = Num 7, y = Num 7\<rparr>
       (\<lambda>q u. Inr (q, u)) (\<lambda>q u. Inr (q, u)) (\<lambda>q u. Inr (Num 10, u)) ()
     = (Inr (\<lparr>x = Num 7, y = Num 7\<rparr>, ()) :: error + point \<times> unit) \<and>
   snapTransformedPoint defaultSettings \<lparr>x = Num 7, y = Num 7\<rparr>
       (\<lambda>q u. Inr (q, u)) (\<lambda>q u. Inr (q, u)) (\<lambda>q u. Inr (Num 10, u)) ()
     = (Inr (\<lparr>x = Num 10, y = Num 10\<rparr>, ()) :: error + point \<times> unit) \<and>
   Math_round (Num 7 / Num 10) * Num 10 = Num 10 \<and>
   snapToGrid engine_nosnap \<lparr>x = Num 7, y = Num 7\<rparr> (\<lambda>i. zero_table) (\<lambda>i. zero_table)
     = Inr (\<lparr>x = Num 7, y = Num 7\<rparr>, engine_nosnap) \<and>
   map_sum id fst (snapToGrid engine10 \<lparr>x = Num 7, y = Num 7\<rparr> (\<lambda>i. zero_table) (\<lambda>i. zero_table))
     = Inr \<lparr>x = Num 10, y = Num 10\<rparr>"
proof -
  let ?p = "\<lparr>x = Num 7, y = Num 7\<rparr>"
  let ?id = "\<lambda>(q::point) (u::unit). (Inr (q, u) :: error + point \<times> unit)"
  let ?gs = "\<lambda>(q::point) (u::unit). (Inr (Num 10, u) :: error + jsnum \<times> unit)"
  have off: "\<not> enabled settings_off \<or> mode settings_off = NONE"
    by (simp add: settings_off_def defaultSettings_def)
  have on: "enabled defaultSettings \<and> mode defaultSettings \<noteq> NONE \<and>
      ?id ?p () = Inr (?p, ()) \<and> ?gs ?p () = Inr (Num 10, ())"
    by (simp add: defaultSettings_def)
  have ns: "\<not> grid_snapToGrid (mergedParams engine_nosnap)"
    by (simp add: engine_nosnap_def createAdaptiveGridModule_def defaultParams_def)
  have e10: "grid_snapToGrid (mergedParams engine10) \<and> enabled (snappingSettings engine10) \<and>
      mode (snappingSettings engine10) \<noteq> NONE \<and>
      (\<forall>d \<in> set (transformationDomains engine10). factory_made d) \<and> cache_consistent engine10"
    by (simp add: engine10_def createAdaptiveGridModule_consistent)
      (simp add: createAdaptiveGridModule_def defaultParams_def defaultSettings_def)
  have r: "round (7 / 10 :: real) = 1" by (simp add: round_def)
  show ?thesis
    using C9_snap [of settings_off ?p ?id ?id ?gs "()" ?p "()" "Num 10" "()" 10 7 engine_nosnap
        "\<lambda>i. zero_table" "\<lambda>i. zero_table", THEN conjunct1, rule_format, OF off]
      C9_snap [of defaultSettings ?p ?id ?id ?gs "()" ?p "()" "Num 10" "()" 10 7 engine_nosnap
        "\<lambda>i. zero_table" "\<lambda>i. zero_table", THEN conjunct2, THEN conjunct1, rule_format, OF on]
      C9_snap [of defaultSettings ?p ?id ?id ?gs "()" ?p "()" "Num 10" "()" 10 7 engine_nosnap
        "\<lambda>i. zero_table" "\<lambda>i. zero_table", THEN conjunct2, THEN conjunct2, THEN conjunct1]
      C9_snap [of defaultSettings ?p ?id ?id ?gs "()" ?p "()" "Num 10" "()" 10 7 engine_nosnap
        "\<lambda>i. zero_table" "\<lambda>i. zero_table", THEN conjunct2, THEN conjunct2, THEN conjunct2,
        THEN conjunct1, rule_format, OF ns]
      C9_snap [of defaultSettings ?p ?id ?id ?gs "()" ?p "()" "Num 10" "()" 10 7 engine10
        "\<lambda>i. zero_table" "\<lambda>i. zero_table", THEN conjunct2, THEN conjunct2, THEN conjunct2,
        THEN conjunct2, THEN conjunct1, rule_format, OF e10]
    by (simp add: r engine10_def createAdaptiveGridModule_def defaultParams_def
        spec_transformPoint_def spec_gridSize_def spec_multiplier_def one_jsnum_def Let_def)
qed

section \<open>The registry and its capacity\<close>


lemma createTransformationDomain_params [simp]:
  "mergedParams (snd (createTransformationDomain st c r ty opts now1 now2 perm)) = mergedParams st"
  by (simp add: createTransformationDomain_def Let_def split: sum.splits)







lemma create_all_params [simp]: "mergedParams (snd (create_all st rs)) = mergedParams st"
  by (induction rs arbitrary: st) (simp_all split: prod.splits, metis createTransformationDomain_params snd_conv)













section \<open>The factory and the one-parameter constructors\<close>

lemma factory_ignores_config:
  "DomainFactory_create (Some ''noise'') config perm =
     Inr \<lparr>type = ''noise'', center = \<lparr>x = Num 0, y = Num 0\<rparr>, radius = Num 100,
          amplitude = Num 0, blendMode = Smooth, options = \<lparr>eccentricity = None\<rparr>,
          variant = Noise (Num (1 / 10)) 3 (Num (1 / 2)) perm, domain_id = None, created = None\<rparr>"
  "DomainFactory_create (Some ''harmonic'') config perm =
     Inr \<lparr>type = ''harmonic'', center = \<lparr>x = Num 0, y = Num 0\<rparr>, radius = Num 100,
          amplitude = Num 0, blendMode = Smooth, options = \<lparr>eccentricity = None\<rparr>,
          variant = Harmonic (Num 3) (Num 2) (Num 0), domain_id = None, created = None\<rparr>"
  "DomainFactory_create (Some ''gaussian-curvature'') config perm =
     Inr \<lparr>type = ''gaussian-curvature'', center = \<lparr>x = Num 0, y = Num 0\<rparr>, radius = Num 100,
          amplitude = Num 0, blendMode = Smooth, options = \<lparr>eccentricity = None\<rparr>,
          variant = GaussianCurvature (Num 4), domain_id = None, created = None\<rparr>"
  by (simp_all add: DomainFactory_create_def NoiseDomain_new_def HarmonicDomain_new_def
      GaussianCurvatureDomain_new_def Domain_new_def property_def js_or_def Let_def)

lemma harmonic_identity:
  assumes "DomainFactory_create (Some ''harmonic'') config perm = Inr d"
  shows "transform d \<lparr>x = Num a, y = Num b\<rparr> dir = \<lparr>x = Num a, y = Num b\<rparr>"
  using assms by (auto simp: factory_ignores_config transform_def HarmonicDomain_transform_def)

lemma gaussian_identity:
  assumes "DomainFactory_create (Some ''gaussian-curvature'') config perm = Inr d"
  shows "transform d \<lparr>x = Num a, y = Num b\<rparr> dir = \<lparr>x = Num a, y = Num b\<rparr>"
  using assms
  by (auto simp: factory_ignores_config transform_def GaussianCurvatureDomain_transform_def
      bumps_def)

lemma noise_transform_NaN:
  assumes "DomainFactory_create (Some ''noise'') config perm = Inr d"
  shows "transform d p dir = \<lparr>x = NaN, y = NaN\<rparr>"
  using assms by (auto simp: factory_ignores_config transform_def)

text \<open>Claim C4. For the types \<open>noise\<close>, \<open>harmonic\<close> and \<open>gaussian-curvature\<close> the factory
  passes the type string where the constructor expects the configuration, so the created domain
  has centre \<open>(0, 0)\<close>, radius 100, amplitude 0 and the default options whatever the
  configuration (\<open>factory_ignores_config\<close>), and the harmonic and Gaussian transforms are the
  identity on finite points (\<open>harmonic_identity\<close>, \<open>gaussian_identity\<close>). The transform of the
  noise domain is not the identity: \<open>#singleOctaveNoise\<close> calls \<open>#lerp\<close> with two arguments, the
  noise value is \<open>NaN\<close>, and \<open>0 * NaN\<close> added to a coordinate is \<open>NaN\<close>. A noise domain created
  from a full configuration maps the point \<open>(1, 2)\<close> to \<open>(NaN, NaN)\<close>.\<close>

theorem C4_noise_not_identity:
  "createDomain (Some ''noise'') (Obj full_config) zero_table = Inr default_noise \<and>
   transform default_noise \<lparr>x = Num 1, y = Num 2\<rparr> (Num 1) = \<lparr>x = NaN, y = NaN\<rparr> \<and>
   transform default_noise \<lparr>x = Num 1, y = Num 2\<rparr> (Num 1) \<noteq> \<lparr>x = Num 1, y = Num 2\<rparr>"
  by (simp add: createDomain_def factory_ignores_config default_noise_def transform_def)


section \<open>Cache invalidation\<close>

lemma calculateBlendingWeights_frame [simp]:
  "transformationDomains (snd (calculateBlendingWeights st p)) = transformationDomains st"
  "mergedParams (snd (calculateBlendingWeights st p)) = mergedParams st"
  "viewportDimensions (snd (calculateBlendingWeights st p)) = viewportDimensions st"
  "gridCellCache (cache (snd (calculateBlendingWeights st p))) = gridCellCache (cache st)"
  by (simp_all add: calculateBlendingWeights_def Let_def split: option.splits)

lemma transformPoint_frame [simp]:
  "transformationDomains (snd (transformPoint st p)) = transformationDomains st"
  "mergedParams (snd (transformPoint st p)) = mergedParams st"
  "viewportDimensions (snd (transformPoint st p)) = viewportDimensions st"
  "gridCellCache (cache (snd (transformPoint st p))) = gridCellCache (cache st)"
  by (simp_all add: transformPoint_def Let_def case_prod_unfold split: option.splits)

lemma transformCorners_frame [simp]:
  "transformationDomains (snd (transformCorners st cs)) = transformationDomains st"
  "mergedParams (snd (transformCorners st cs)) = mergedParams st"
  "viewportDimensions (snd (transformCorners st cs)) = viewportDimensions st"
  "gridCellCache (cache (snd (transformCorners st cs))) = gridCellCache (cache st)"
  by (induction cs arbitrary: st; simp add: case_prod_unfold)+

lemma transformCorners_hd:
  "hd (fst (transformCorners st (c # cs))) = fst (transformPoint st c)"
  by (simp add: case_prod_unfold)


lemma generateGridCells_hit:
  "gridCellCache (cache st)
     (width (viewportDimensions st), height (viewportDimensions st), grid_size (mergedParams st),
      length (transformationDomains st)) = Some cells \<Longrightarrow>
   generateGridCells st = Some (cells, st)"
  by (simp add: generateGridCells_def Let_def)

lemma generateGridCells_miss_small:
  assumes "viewportDimensions st = \<lparr>width = Num 0, height = Num 0\<rparr>"
    and "grid_size (mergedParams st) = Num 20"
    and "gridCellCache (cache st) (Num 0, Num 0, Num 20, length (transformationDomains st)) = None"
  shows "\<exists>cells st'. generateGridCells st = Some (cells, st') \<and>
           transformationDomains st' = transformationDomains st \<and>
           mergedParams st' = mergedParams st \<and>
           viewportDimensions st' = viewportDimensions st \<and>
           gridCellCache (cache st')
             = (gridCellCache (cache st))
                 ((Num 0, Num 0, Num 20, length (transformationDomains st)) \<mapsto> cells) \<and>
           hd (transformed (hd cells)) = fst (transformPoint st \<lparr>x = Num (- 20), y = Num (- 20)\<rparr>)"
  using assms
  by (simp add: generateGridCells_def Let_def cells_loop_x.simps cells_loop_y.simps
      case_prod_unfold)


lemma registry_operations_keep_gridCellCache:
  "gridCellCache (cache (snd (createTransformationDomain st c r ty opts now1 now2 perm)))
     = gridCellCache (cache st)"
  "gridCellCache (cache (snd (removeTransformationDomain st n))) = gridCellCache (cache st)"
  "gridCellCache (cache (clearTransformationDomains st)) = gridCellCache (cache st)"
  by (simp_all add: createTransformationDomain_def removeTransformationDomain_def
      clearTransformationDomains_def Let_def split: sum.splits)

lemma registry_operations_clear_point_caches:
  "fst (createTransformationDomain st c r ty opts now1 now2 perm) = Inr d \<Longrightarrow>
     transformationCache (cache (snd (createTransformationDomain st c r ty opts now1 now2 perm)))
       = Map.empty \<and>
     blendingCache (cache (snd (createTransformationDomain st c r ty opts now1 now2 perm)))
       = Map.empty"
  "fst (removeTransformationDomain st n) \<Longrightarrow>
     transformationCache (cache (snd (removeTransformationDomain st n))) = Map.empty \<and>
     blendingCache (cache (snd (removeTransformationDomain st n))) = Map.empty"
  "transformationCache (cache (clearTransformationDomains st)) = Map.empty \<and>
   blendingCache (cache (clearTransformationDomains st)) = Map.empty"
  by (auto simp: createTransformationDomain_def removeTransformationDomain_def
      clearTransformationDomains_def Let_def split: sum.splits if_splits)

lemma viewport_operations_clear_gridCellCache:
  "gridCellCache (cache (snd (setPanOffset st px py))) = Map.empty"
  "gridCellCache (cache (snd (updateViewportDimensions st w h))) = Map.empty"
  "zoomLevel (snd (setZoomLevel st z)) \<noteq> zoomLevel st \<Longrightarrow>
     gridCellCache (cache (snd (setZoomLevel st z))) = Map.empty"
  by (auto simp: setPanOffset_def updateViewportDimensions_def setZoomLevel_def Let_def
      split: if_splits)

lemma engine_a1_fields:
  "transformationDomains engine_a1 = [dom_a]"
  "viewportDimensions engine_a1 = \<lparr>width = Num 0, height = Num 0\<rparr>"
  "mergedParams engine_a1 = defaultParams\<lparr>maxActiveDomains := Num 1\<rparr>"
  "gridCellCache (cache engine_a1) = Map.empty"
  by (simp_all add: engine_a1_def engine_a0_def createTransformationDomain_def
      createAdaptiveGridModule_def defaultParams_def createDomain_def DomainFactory_create_def
      dom_a_def Let_def)

lemma engine_a1_consistent: "cache_consistent engine_a1"
  unfolding engine_a1_def
  by (rule createTransformationDomain_consistent [where d = dom_a])
    (simp add: engine_a0_def createTransformationDomain_def createAdaptiveGridModule_def
      defaultParams_def createDomain_def DomainFactory_create_def dom_a_def Let_def)

lemma engine_a2_fields:
  "generateGridCells engine_a1 = Some (cells_a, engine_a2)"
  "transformationDomains engine_a2 = [dom_a]"
  "viewportDimensions engine_a2 = \<lparr>width = Num 0, height = Num 0\<rparr>"
  "mergedParams engine_a2 = defaultParams\<lparr>maxActiveDomains := Num 1\<rparr>"
  "gridCellCache (cache engine_a2) (Num 0, Num 0, Num 20, 1) = Some cells_a"
  "hd (transformed (hd cells_a)) = fst (transformPoint engine_a1 \<lparr>x = Num (- 20), y = Num (- 20)\<rparr>)"
proof -
  have "viewportDimensions engine_a1 = \<lparr>width = Num 0, height = Num 0\<rparr>"
    and "grid_size (mergedParams engine_a1) = Num 20"
    and "gridCellCache (cache engine_a1)
           (Num 0, Num 0, Num 20, length (transformationDomains engine_a1)) = None"
    by (simp_all add: engine_a1_fields defaultParams_def)
  from generateGridCells_miss_small [OF this] obtain cells st' where
    g: "generateGridCells engine_a1 = Some (cells, st')"
    and r: "transformationDomains st' = transformationDomains engine_a1"
      "mergedParams st' = mergedParams engine_a1"
      "viewportDimensions st' = viewportDimensions engine_a1"
      "gridCellCache (cache st')
         = (gridCellCache (cache engine_a1))
             ((Num 0, Num 0, Num 20, length (transformationDomains engine_a1)) \<mapsto> cells)"
      "hd (transformed (hd cells)) = fst (transformPoint engine_a1 \<lparr>x = Num (- 20), y = Num (- 20)\<rparr>)"
    by blast
  from g have e: "cells_a = cells" "engine_a2 = st'"
    by (simp_all add: cells_a_def engine_a2_def)
  show "generateGridCells engine_a1 = Some (cells_a, engine_a2)" using g e by simp
  show "transformationDomains engine_a2 = [dom_a]" using r e by (simp add: engine_a1_fields)
  show "viewportDimensions engine_a2 = \<lparr>width = Num 0, height = Num 0\<rparr>"
    using r e by (simp add: engine_a1_fields)
  show "mergedParams engine_a2 = defaultParams\<lparr>maxActiveDomains := Num 1\<rparr>"
    using r e by (simp add: engine_a1_fields)
  show "gridCellCache (cache engine_a2) (Num 0, Num 0, Num 20, 1) = Some cells_a"
    using r e by (simp add: engine_a1_fields)
  show "hd (transformed (hd cells_a)) = fst (transformPoint engine_a1 \<lparr>x = Num (- 20), y = Num (- 20)\<rparr>)"
    using r e by simp
qed

lemma engine_b_fields:
  "transformationDomains engine_b = [dom_b]"
  "viewportDimensions engine_b = \<lparr>width = Num 0, height = Num 0\<rparr>"
  "mergedParams engine_b = defaultParams\<lparr>maxActiveDomains := Num 1\<rparr>"
  "gridCellCache (cache engine_b) = gridCellCache (cache engine_a2)"
  "cache_consistent engine_b"
proof -
  have c: "createDomain (Some ''cylindrical'')
             (Obj (empty_config\<lparr>cfg_center := Some \<lparr>x = Num (- 20), y = Num (- 20)\<rparr>,
                               cfg_radius := Some (Num 100),
                               cfg_options := Some \<lparr>eccentricity = None\<rparr>\<rparr>)) zero_table
           = Inr (dom_b\<lparr>domain_id := None, created := None\<rparr>)"
    by (simp add: createDomain_def DomainFactory_create_def dom_b_def)
  have i: "dom_b\<lparr>domain_id := Some 2, created := Some 2\<rparr> = dom_b"
    by (simp add: dom_b_def)
  show "transformationDomains engine_b = [dom_b]"
    by (simp add: engine_b_def createTransformationDomain_def Let_def engine_a2_fields c i
        defaultParams_def)
  show "viewportDimensions engine_b = \<lparr>width = Num 0, height = Num 0\<rparr>"
    by (simp add: engine_b_def createTransformationDomain_def Let_def engine_a2_fields c)
  show "mergedParams engine_b = defaultParams\<lparr>maxActiveDomains := Num 1\<rparr>"
    by (simp add: engine_b_def createTransformationDomain_def Let_def engine_a2_fields c)
  show "gridCellCache (cache engine_b) = gridCellCache (cache engine_a2)"
    unfolding engine_b_def by (rule registry_operations_keep_gridCellCache)
  show "cache_consistent engine_b"
    unfolding engine_b_def
    by (rule createTransformationDomain_consistent [where d = dom_b])
      (simp add: createTransformationDomain_def Let_def c i)
qed

lemma dom_a_fields:
  "center dom_a = \<lparr>x = Num (- 20), y = Num (- 20)\<rparr>" "radius dom_a = Num 100"
  "blendMode dom_a = Smooth" "variant dom_a = Spherical"
  by (simp_all add: dom_a_def Domain_new_def property_def empty_config_def js_or_def Let_def)

lemma dom_b_fields:
  "center dom_b = \<lparr>x = Num (- 20), y = Num (- 20)\<rparr>" "radius dom_b = Num 100"
  "blendMode dom_b = Smooth" "variant dom_b = Cylindrical"
  by (simp_all add: dom_b_def Domain_new_def property_def empty_config_def js_or_def Let_def)

text \<open>Claim C3. The registry operations empty the forward-transform cache and the blend-weight
  cache when they return normally (\<open>registry_operations_clear_point_caches\<close>), but none of them
  touches the grid-cell cache (\<open>registry_operations_keep_gridCellCache\<close>), whose key holds only
  the number of domains. In an engine of capacity 1 with a spherical domain, the grid cells are
  generated and cached; creating a cylindrical domain evicts the spherical one and leaves the
  number of domains at 1; the next \<open>generateGridCells\<close> returns the cells cached for the
  spherical domain, whose first corner is \<open>(-20, -20)\<close>, although the engine now maps that corner
  to \<open>(0, -100)\<close>.\<close>

theorem C3_stale_grid_cells:
  "generateGridCells engine_a1 = Some (cells_a, engine_a2) \<and>
   transformationDomains engine_a2 = [dom_a] \<and>
   transformationDomains engine_b = [dom_b] \<and>
   gridCellCache (cache engine_b) (Num 0, Num 0, Num 20, 1) = Some cells_a \<and>
   generateGridCells engine_b = Some (cells_a, engine_b) \<and>
   hd (transformed (hd cells_a)) = \<lparr>x = Num (- 20), y = Num (- 20)\<rparr> \<and>
   fst (transformPoint engine_b \<lparr>x = Num (- 20), y = Num (- 20)\<rparr>) = \<lparr>x = Num 0, y = Num (- 100)\<rparr>"
proof -
  have k: "gridCellCache (cache engine_b) (Num 0, Num 0, Num 20, 1) = Some cells_a"
    using engine_a2_fields(5) by (simp add: engine_b_fields)
  have g: "generateGridCells engine_b = Some (cells_a, engine_b)"
    using engine_a2_fields(5) by (intro generateGridCells_hit) (simp add: engine_b_fields defaultParams_def)
  have a: "fst (transformPoint engine_a1 \<lparr>x = Num (- 20), y = Num (- 20)\<rparr>)
             = \<lparr>x = Num (- 20), y = Num (- 20)\<rparr>"
    by (simp add: transformPoint_consistent [OF engine_a1_consistent] engine_a1_fields
        spec_transformPoint_def spec_flatWeight_def active_def weightAt_def transform_def
        dom_a_fields Math_PI_def zero_jsnum_def stereographicProjection_def
        complex_fromPoint_def complex_abs_def)
  have b: "fst (transformPoint engine_b \<lparr>x = Num (- 20), y = Num (- 20)\<rparr>)
             = \<lparr>x = Num 0, y = Num (- 100)\<rparr>"
    by (simp add: transformPoint_consistent [OF engine_b_fields(5)] engine_b_fields
        spec_transformPoint_def spec_flatWeight_def active_def weightAt_def transform_def
        dom_b_fields Math_PI_def zero_jsnum_def cylindricalMapping_def atan2_real_def)
  show ?thesis
    using k g a b by (simp add: engine_a2_fields engine_b_fields)
qed

lemma transformPoint_caches_result:
  "transformationCache (cache (snd (transformPoint st p))) (x p, y p) = Some (fst (transformPoint st p))"
  by (simp add: transformPoint_def Let_def case_prod_unfold split: option.splits)

text \<open>A call of \<open>createTransformationDomain\<close> with an unknown type on a full registry removes the
  oldest domain, then fails in the factory before the caches are emptied: the registry is empty
  afterwards, yet \<open>transformPoint\<close> still answers from the cache filled for the removed domain.\<close>

lemma throwing_create_keeps_point_caches:
  "fst (createTransformationDomain engine_p \<lparr>x = Num 0, y = Num 0\<rparr> (Some (Num 100))
          (Some ''bogus'') \<lparr>eccentricity = None\<rparr> 3 3 zero_table)
     = Inl (InvalidDomainType (Some ''bogus'')) \<and>
   transformationDomains engine_p = [dom_a] \<and>
   transformationDomains engine_t = [] \<and>
   fst (transformPoint engine_t \<lparr>x = Num 30, y = Num (- 20)\<rparr>) = \<lparr>x = Num 45, y = Num (- 20)\<rparr>"
proof -
  let ?p = "\<lparr>x = Num 30, y = Num (- 20)\<rparr>"
  have v: "fst (transformPoint engine_a1 ?p) = \<lparr>x = Num 45, y = Num (- 20)\<rparr>"
    by (simp add: transformPoint_consistent [OF engine_a1_consistent] engine_a1_fields
        spec_transformPoint_def spec_flatWeight_def active_def weightAt_def transform_def
        dom_a_fields Math_PI_def zero_jsnum_def stereographicProjection_def
        complex_fromPoint_def complex_abs_def)
  have c: "transformationCache (cache engine_p) (Num 30, Num (- 20)) = Some \<lparr>x = Num 45, y = Num (- 20)\<rparr>"
    using transformPoint_caches_result [of engine_a1 ?p] v by (simp add: engine_p_def)
  have f: "createDomain (Some ''bogus'') a zero_table = Inl (InvalidDomainType (Some ''bogus''))" for a
    by (simp add: createDomain_def DomainFactory_create_def)
  have p: "transformationDomains engine_p = [dom_a]" "mergedParams engine_p = defaultParams\<lparr>maxActiveDomains := Num 1\<rparr>"
    by (simp_all add: engine_p_def engine_a1_fields)
  have t: "engine_t = engine_p\<lparr>transformationDomains := []\<rparr>"
    by (simp add: engine_t_def createTransformationDomain_def Let_def f p defaultParams_def)
  show ?thesis
    using c by (simp add: createTransformationDomain_def Let_def f p t transformPoint_def)
qed


section \<open>The forward transform after a failed creation\<close>

text \<open>
  Claim C1. The claim gives the value of \<open>transformPoint\<close> for every state of the registry:
  the blend of the registered domains, and the point itself when the registry is empty.
  The engine of capacity 1 holds a spherical domain around \<open>(-20, -20)\<close>; \<open>transformPoint\<close>
  maps \<open>(30, -20)\<close> to \<open>(45, -20)\<close> and caches the result; \<open>createTransformationDomain\<close> is
  called with an unknown type, removes the spherical domain before the factory throws, and
  does not reach the statements that empty the caches. The registry is now empty and the
  blend of the claim is the point \<open>(30, -20)\<close> itself, but \<open>transformPoint\<close> returns the
  cached \<open>(45, -20)\<close>.
\<close>

theorem C1_stale_after_failed_create:
  "transformationDomains engine_t = [] \<and>
   spec_transformPoint (transformationDomains engine_t) \<lparr>x = Num 30, y = Num (- 20)\<rparr>
     = \<lparr>x = Num 30, y = Num (- 20)\<rparr> \<and>
   fst (transformPoint engine_t \<lparr>x = Num 30, y = Num (- 20)\<rparr>) = \<lparr>x = Num 45, y = Num (- 20)\<rparr>"
  using throwing_create_keeps_point_caches
  by (simp add: spec_transformPoint_def)

end
